theory Spec2Isabelle
  imports Complex_Main
begin

section \<open>The recommendation API probe (functions/scripts/probe.py)\<close>

text \<open>
  A shallow embedding of class \<open>RecommendationProbe\<close>. The probe talks to an HTTP
  service, reads the wall clock and draws random numbers. These three are the
  environment: each is an oracle that says what the n-th HTTP call, the n-th clock
  reading and the n-th random draw give. The state records how far each oracle has been
  consumed, and the list of HTTP calls issued so far. Python exceptions are values of
  type \<open>exn\<close>; a function that can let one escape returns \<open>exn + 'a\<close>.
  Floating-point numbers are modelled as real numbers.
\<close>

subsection \<open>Parsed JSON and the Python operations used on it\<close>

datatype json =
    JNull
  | JBool bool
  | JInt int
  | JFloat real
  | JStr string
  | JArr "json list"
  | JObj "(string \<times> json) list"

datatype exn =
    RequestException string
  | HTTPError string
  | JSONDecodeError string
  | AttributeError string
  | TypeError string
  | KeyError string
  | IndexError string

text \<open>\<open>str(e)\<close>: the message of an exception.\<close>

fun str_exn :: "exn \<Rightarrow> string" where
  "str_exn (RequestException m) = m"
| "str_exn (HTTPError m) = m"
| "str_exn (JSONDecodeError m) = m"
| "str_exn (AttributeError m) = m"
| "str_exn (TypeError m) = m"
| "str_exn (KeyError m) = m"
| "str_exn (IndexError m) = m"

fun type_name :: "json \<Rightarrow> string" where
  "type_name JNull = ''NoneType''"
| "type_name (JBool b) = ''bool''"
| "type_name (JInt i) = ''int''"
| "type_name (JFloat x) = ''float''"
| "type_name (JStr s) = ''str''"
| "type_name (JArr xs) = ''list''"
| "type_name (JObj kvs) = ''dict''"

text \<open>\<open>v.get(key, default)\<close>: only a dict has the method.\<close>

fun py_get :: "json \<Rightarrow> string \<Rightarrow> json \<Rightarrow> exn + json" where
  "py_get (JObj kvs) k d = Inr (case map_of kvs k of Some v \<Rightarrow> v | None \<Rightarrow> d)"
| "py_get v k d =
     Inl (AttributeError ([CHR 0x27] @ type_name v @ [CHR 0x27] @ '' object has no attribute '' @ [CHR 0x27] @ ''get'' @ [CHR 0x27]))"

text \<open>
  \<open>len(v)\<close>: lists, strings and dicts have a length. A string counts its characters,
  a dict its distinct keys.
\<close>

fun py_len :: "json \<Rightarrow> exn + nat" where
  "py_len (JArr xs) = Inr (length xs)"
| "py_len (JStr s) = Inr (length s)"
| "py_len (JObj kvs) = Inr (length (remdups (map fst kvs)))"
| "py_len v =
     Inl (TypeError (''object of type '' @ [CHR 0x27] @ type_name v @ [CHR 0x27] @ '' has no len()''))"

text \<open>The truth value of \<open>v\<close> in \<open>if v:\<close>.\<close>

fun py_truthy :: "json \<Rightarrow> bool" where
  "py_truthy JNull = False"
| "py_truthy (JBool b) = b"
| "py_truthy (JInt i) = (i \<noteq> 0)"
| "py_truthy (JFloat x) = (x \<noteq> 0)"
| "py_truthy (JStr s) = (s \<noteq> [])"
| "py_truthy (JArr xs) = (xs \<noteq> [])"
| "py_truthy (JObj kvs) = (kvs \<noteq> [])"

text \<open>\<open>v[0]\<close>. The keys of a parsed JSON object are strings, so 0 is never a key.\<close>

fun py_first :: "json \<Rightarrow> exn + json" where
  "py_first (JArr []) = Inl (IndexError ''list index out of range'')"
| "py_first (JArr (x # xs)) = Inr x"
| "py_first (JStr []) = Inl (IndexError ''string index out of range'')"
| "py_first (JStr (c # cs)) = Inr (JStr [c])"
| "py_first (JObj kvs) = Inl (KeyError ''0'')"
| "py_first v =
     Inl (TypeError ([CHR 0x27] @ type_name v @ [CHR 0x27] @ '' object is not subscriptable''))"

subsection \<open>Environment and state\<close>

text \<open>
  An HTTP call of the session (\<open>session.get\<close>, \<open>session.post\<close>) either raises
  (connection failure, timeout) or returns a response. On a response,
  \<open>raise_for_status()\<close> raises or passes (\<open>Some m\<close> is the message it raises with),
  \<open>response.json()\<close> raises or gives the parsed body, and \<open>response.elapsed\<close> is
  the transport's elapsed time in seconds.
\<close>

datatype http_outcome =
    SendFailed string
  | Responded "string option" "string + json" real

text \<open>
  The calls the probe issues, by endpoint, with the payload fields that vary:
  \<open>GET /health\<close>; \<open>POST /recommend {userId, options}\<close>;
  \<open>POST /track {userId, itemId, interactionType}\<close>; \<open>POST /models/compare {userId}\<close>.
  The constant parts (base URL, headers, timeouts, the \<open>numRecommendations: 5\<close> of the
  comparison) and the metadata block of \<open>/track\<close> (the constant source tag and a
  wall-clock timestamp) are left out.
\<close>

datatype request =
    HealthReq
  | RecommendReq string json
  | TrackReq string json string
  | CompareReq string

record env =
  env_server :: "nat \<Rightarrow> request \<Rightarrow> http_outcome"
  env_clock :: "nat \<Rightarrow> real"
  env_random :: "nat \<Rightarrow> real"
  env_entropy :: "nat \<Rightarrow> nat"

record state =
  calls :: "request list"
  clock_reads :: nat
  draws :: nat

definition http_call :: "env \<Rightarrow> request \<Rightarrow> state \<Rightarrow> http_outcome \<times> state" where
  "http_call e req st =
     (env_server e (length (calls st)) req, st\<lparr>calls := calls st @ [req]\<rparr>)"

text \<open>\<open>time.time()\<close> and \<open>datetime.now()\<close>: the next clock reading.\<close>

definition time_time :: "env \<Rightarrow> state \<Rightarrow> real \<times> state" where
  "time_time e st = (env_clock e (clock_reads st), st\<lparr>clock_reads := Suc (clock_reads st)\<rparr>)"

text \<open>\<open>random.random()\<close>: the next draw, a float.\<close>

definition random_random :: "env \<Rightarrow> state \<Rightarrow> real \<times> state" where
  "random_random e st = (env_random e (draws st), st\<lparr>draws := Suc (draws st)\<rparr>)"

text \<open>\<open>random.randint(a, b)\<close>: an integer N with \<open>a \<le> N \<le> b\<close>, from the next draw.\<close>

definition random_randint :: "env \<Rightarrow> int \<Rightarrow> int \<Rightarrow> state \<Rightarrow> int \<times> state" where
  "random_randint e a b st =
     (a + int (env_entropy e (draws st) mod nat (b - a + 1)), st\<lparr>draws := Suc (draws st)\<rparr>)"

text \<open>\<open>random.choice(seq)\<close>: an element of the sequence; IndexError on an empty one.\<close>

definition random_choice :: "env \<Rightarrow> 'a list \<Rightarrow> state \<Rightarrow> (exn + 'a) \<times> state" where
  "random_choice e xs st =
     (if xs = [] then (Inl (IndexError ''Cannot choose from an empty sequence''), st)
      else (Inr (xs ! (env_entropy e (draws st) mod length xs)), st\<lparr>draws := Suc (draws st)\<rparr>))"

text \<open>
  \<open>random.sample(population, k)\<close> with \<open>k \<le> len(population)\<close>: k elements at
  distinct positions, one draw each.
\<close>

fun remove_nth :: "nat \<Rightarrow> 'a list \<Rightarrow> 'a list" where
  "remove_nth i xs = take i xs @ drop (Suc i) xs"

fun random_sample :: "env \<Rightarrow> 'a list \<Rightarrow> nat \<Rightarrow> state \<Rightarrow> 'a list \<times> state" where
  "random_sample e xs 0 st = ([], st)"
| "random_sample e xs (Suc k) st =
     (if xs = [] then ([], st)
      else let i = env_entropy e (draws st) mod length xs;
               (rest, st') = random_sample e (remove_nth i xs) k (st\<lparr>draws := Suc (draws st)\<rparr>)
           in (xs ! i # rest, st'))"

subsection \<open>Result records\<close>

text \<open>
  The dictionaries the operations return, one field per key. A field of option type is
  \<open>None\<close> when the key is absent from the dictionary, except
  \<open>hc_response_time\<close> and \<open>rec_response_time\<close>: these keys are always present
  and \<open>None\<close> is Python's \<open>None\<close>.
\<close>

record health_result =
  hc_status :: string
  hc_response_time :: "real option"
  hc_data :: "json option"
  hc_error :: "string option"

record rec_result =
  rec_status :: string
  rec_error :: "string option"
  rec_response_time :: "real option"
  recommendations_count :: nat
  model_used :: "json option"
  request_id :: "json option"
  latency :: "json option"
  rec_data :: "json option"

record track_result =
  trk_status :: string
  trk_interaction :: "json option"
  trk_response_time :: "real option"
  trk_error :: "string option"

record compare_result =
  cmp_status :: string
  models_compared :: "nat option"
  total_time :: "json option"
  cmp_data :: "json option"
  cmp_error :: "string option"

text \<open>The entries of the report's \<open>recommendations\<close> and \<open>interactions\<close> lists.\<close>

record rec_entry =
  re_user_id :: string
  re_result :: rec_result

record interaction =
  ie_user_id :: string
  ie_item_id :: json
  ie_rating :: "int option"
  ie_result :: track_result

record summary =
  sum_status :: string
  sum_reason :: "string option"
  cycle_time :: "real option"
  total_requests :: "nat option"
  successful_recommendations :: "nat option"
  personalized_responses :: "nat option"
  personalization_rate :: "real option"
  avg_response_time :: "real option"

text \<open>
  The report of a cycle. \<open>rp_model_comparison = None\<close> is the empty dictionary the
  report starts with; timestamps are kept as clock readings.
\<close>

record report =
  rp_cycle_start :: real
  rp_health_check :: health_result
  rp_recommendations :: "rec_entry list"
  rp_interactions :: "interaction list"
  rp_model_comparison :: "compare_result option"
  rp_summary :: summary

text \<open>The attributes of the probe object that the cycle reads.\<close>

record probe =
  test_users :: "string list"
  test_items :: "string list"

definition init :: probe where
  "init = \<lparr>test_users = [''user_001'', ''user_002'', ''user_003'', ''user_004'', ''user_005'',
                          ''user_006'', ''user_007'', ''user_008'', ''user_009'', ''user_010''],
            test_items = [''ride_001'', ''ride_002'', ''ride_003'', ''ride_004'', ''ride_005'',
                          ''ride_006'', ''ride_007'', ''ride_008'', ''ride_009'', ''ride_010'']\<rparr>"

subsection \<open>The four operations\<close>

text \<open>\<open>health_check\<close>: the body of the \<open>try\<close>, then the function with its handler.\<close>

definition health_check_try :: "env \<Rightarrow> state \<Rightarrow> (exn + health_result) \<times> state" where
  "health_check_try e st =
     (let (out, st1) = http_call e HealthReq st
      in case out of
           SendFailed m \<Rightarrow> (Inl (RequestException m), st1)
         | Responded bad body elapsed \<Rightarrow>
             (case bad of
                Some m \<Rightarrow> (Inl (HTTPError m), st1)
              | None \<Rightarrow>
                 (case body of
                    Inl m \<Rightarrow> (Inl (JSONDecodeError m), st1)
                  | Inr health_data \<Rightarrow>
                      (Inr \<lparr>hc_status = ''healthy'', hc_response_time = Some elapsed,
                            hc_data = Some health_data, hc_error = None\<rparr>, st1))))"

definition health_check :: "env \<Rightarrow> state \<Rightarrow> health_result \<times> state" where
  "health_check e st =
     (case health_check_try e st of
        (Inr r, st') \<Rightarrow> (r, st')
      | (Inl x, st') \<Rightarrow>
          (\<lparr>hc_status = ''unhealthy'', hc_response_time = None, hc_data = None,
            hc_error = Some (str_exn x)\<rparr>, st'))"

text \<open>\<open>get_recommendations\<close>. First the result dictionary built from the parsed body.\<close>

definition recommendation_result :: "real \<Rightarrow> json \<Rightarrow> exn + rec_result" where
  "recommendation_result response_time data =
     (case py_get data ''recommendations'' (JArr []) of Inl x \<Rightarrow> Inl x | Inr recs \<Rightarrow>
     (case py_len recs of Inl x \<Rightarrow> Inl x | Inr n \<Rightarrow>
     (case py_get data ''model'' (JStr ''unknown'') of Inl x \<Rightarrow> Inl x | Inr model \<Rightarrow>
     (case py_get data ''requestId'' (JStr ''unknown'') of Inl x \<Rightarrow> Inl x | Inr rid \<Rightarrow>
     (case py_get data ''latency'' (JInt 0) of Inl x \<Rightarrow> Inl x | Inr lat \<Rightarrow>
        Inr \<lparr>rec_status = ''success'', rec_error = None, rec_response_time = Some response_time,
             recommendations_count = n, model_used = Some model, request_id = Some rid,
             latency = Some lat, rec_data = Some data\<rparr>)))))"

text \<open>\<open>options or {}\<close>, for an argument that defaults to \<open>None\<close>.\<close>

definition options_or_empty :: "json option \<Rightarrow> json" where
  "options_or_empty options =
     (case options of None \<Rightarrow> JObj []
      | Some opts \<Rightarrow> if py_truthy opts then opts else JObj [])"

definition get_recommendations_try ::
  "env \<Rightarrow> string \<Rightarrow> json option \<Rightarrow> state \<Rightarrow> (exn + rec_result) \<times> state" where
  "get_recommendations_try e user_id options st =
     (let (start_time, st1) = time_time e st;
          (out, st2) = http_call e (RecommendReq user_id (options_or_empty options)) st1
      in case out of
           SendFailed m \<Rightarrow> (Inl (RequestException m), st2)
         | Responded bad body elapsed \<Rightarrow>
             (let (end_time, st3) = time_time e st2;
                  response_time = end_time - start_time
              in case bad of
                   Some m \<Rightarrow> (Inl (HTTPError m), st3)
                 | None \<Rightarrow>
                    (case body of
                       Inl m \<Rightarrow> (Inl (JSONDecodeError m), st3)
                     | Inr data \<Rightarrow> (recommendation_result response_time data, st3))))"

definition get_recommendations ::
  "env \<Rightarrow> string \<Rightarrow> json option \<Rightarrow> state \<Rightarrow> rec_result \<times> state" where
  "get_recommendations e user_id options st =
     (case get_recommendations_try e user_id options st of
        (Inr r, st') \<Rightarrow> (r, st')
      | (Inl x, st') \<Rightarrow>
          (\<lparr>rec_status = ''error'', rec_error = Some (str_exn x), rec_response_time = None,
            recommendations_count = 0, model_used = None, request_id = None,
            latency = None, rec_data = None\<rparr>, st'))"

text \<open>\<open>track_interaction\<close>.\<close>

definition track_interaction_try ::
  "env \<Rightarrow> string \<Rightarrow> json \<Rightarrow> string \<Rightarrow> state \<Rightarrow> (exn + track_result) \<times> state" where
  "track_interaction_try e user_id item_id interaction_type st =
     (let (out, st1) = http_call e (TrackReq user_id item_id interaction_type) st
      in case out of
           SendFailed m \<Rightarrow> (Inl (RequestException m), st1)
         | Responded bad body elapsed \<Rightarrow>
             (case bad of
                Some m \<Rightarrow> (Inl (HTTPError m), st1)
              | None \<Rightarrow>
                 (case body of
                    Inl m \<Rightarrow> (Inl (JSONDecodeError m), st1)
                  | Inr data \<Rightarrow>
                      (case py_get data ''interaction'' (JObj []) of
                         Inl x \<Rightarrow> (Inl x, st1)
                       | Inr i \<Rightarrow>
                           (Inr \<lparr>trk_status = ''success'', trk_interaction = Some i,
                                 trk_response_time = Some elapsed, trk_error = None\<rparr>, st1)))))"

definition track_interaction ::
  "env \<Rightarrow> string \<Rightarrow> json \<Rightarrow> string \<Rightarrow> state \<Rightarrow> track_result \<times> state" where
  "track_interaction e user_id item_id interaction_type st =
     (case track_interaction_try e user_id item_id interaction_type st of
        (Inr r, st') \<Rightarrow> (r, st')
      | (Inl x, st') \<Rightarrow>
          (\<lparr>trk_status = ''error'', trk_interaction = None, trk_response_time = None,
            trk_error = Some (str_exn x)\<rparr>, st'))"

text \<open>\<open>compare_models\<close>.\<close>

definition compare_models_try :: "env \<Rightarrow> string \<Rightarrow> state \<Rightarrow> (exn + compare_result) \<times> state" where
  "compare_models_try e user_id st =
     (let (out, st1) = http_call e (CompareReq user_id) st
      in case out of
           SendFailed m \<Rightarrow> (Inl (RequestException m), st1)
         | Responded bad body elapsed \<Rightarrow>
             (case bad of
                Some m \<Rightarrow> (Inl (HTTPError m), st1)
              | None \<Rightarrow>
                 (case body of
                    Inl m \<Rightarrow> (Inl (JSONDecodeError m), st1)
                  | Inr data \<Rightarrow>
                      (case py_get data ''comparison'' (JObj []) of Inl x \<Rightarrow> (Inl x, st1)
                       | Inr c \<Rightarrow>
                      (case py_len c of Inl x \<Rightarrow> (Inl x, st1)
                       | Inr n \<Rightarrow>
                      (case py_get data ''totalComparisonTime'' (JInt 0) of Inl x \<Rightarrow> (Inl x, st1)
                       | Inr t \<Rightarrow>
                           (Inr \<lparr>cmp_status = ''success'', models_compared = Some n,
                                 total_time = Some t, cmp_data = Some data,
                                 cmp_error = None\<rparr>, st1)))))))"

definition compare_models :: "env \<Rightarrow> string \<Rightarrow> state \<Rightarrow> compare_result \<times> state" where
  "compare_models e user_id st =
     (case compare_models_try e user_id st of
        (Inr r, st') \<Rightarrow> (r, st')
      | (Inl x, st') \<Rightarrow>
          (\<lparr>cmp_status = ''error'', models_compared = None, total_time = None,
            cmp_data = None, cmp_error = Some (str_exn x)\<rparr>, st'))"

subsection \<open>The probe cycle\<close>

text \<open>The options sent with each recommendation request of the cycle.\<close>

definition probe_options :: "string \<Rightarrow> string \<Rightarrow> json" where
  "probe_options location time_of_day =
     JObj [(''numRecommendations'', JInt 10),
           (''context'', JObj [(''location'', JStr location), (''timeOfDay'', JStr time_of_day)])]"

text \<open>
  The block guarded by \<open>status == 'success' and recommendations_count > 0\<close>: the
  view of the first recommendation and, on a draw above 0.7, its rating. It appends to
  the interactions list. In \<open>recommendations[0].get('itemId', random.choice(...))\<close>
  Python looks the method up before it evaluates the arguments, so a first item that is
  not a dict raises before anything is drawn.
\<close>

definition track_interactions ::
  "probe \<Rightarrow> env \<Rightarrow> string \<Rightarrow> rec_result \<Rightarrow> interaction list \<Rightarrow> state
     \<Rightarrow> (exn + interaction list) \<times> state" where
  "track_interactions p e user_id rec_result ints st =
     (case rec_data rec_result of None \<Rightarrow> (Inl (KeyError ''data''), st) | Some data \<Rightarrow>
     (case py_get data ''recommendations'' (JArr []) of Inl x \<Rightarrow> (Inl x, st)
      | Inr recommendations \<Rightarrow>
        if py_truthy recommendations then
          (case py_first recommendations of Inl x \<Rightarrow> (Inl x, st) | Inr first_rec \<Rightarrow>
          (case py_get first_rec ''itemId'' JNull of Inl x \<Rightarrow> (Inl x, st) | Inr _ \<Rightarrow>
          (case random_choice e (test_items p) st of (Inl x, st1) \<Rightarrow> (Inl x, st1)
           | (Inr fallback, st1) \<Rightarrow>
          (case py_get first_rec ''itemId'' (JStr fallback) of Inl x \<Rightarrow> (Inl x, st1)
           | Inr item_id \<Rightarrow>
             (let (interaction_result, st2) = track_interaction e user_id item_id ''view'' st1;
                  ints1 = ints @ [\<lparr>ie_user_id = user_id, ie_item_id = item_id,
                                   ie_rating = None, ie_result = interaction_result\<rparr>];
                  (draw, st3) = random_random e st2
              in if draw > 7 / 10 then
                   (let (rating, st4) = random_randint e 1 5 st3;
                        (interaction_result2, st5) =
                           track_interaction e user_id item_id ''rate'' st4
                    in (Inr (ints1 @ [\<lparr>ie_user_id = user_id, ie_item_id = item_id,
                                        ie_rating = Some rating,
                                        ie_result = interaction_result2\<rparr>]), st5))
                 else (Inr ints1, st3))))))
        else (Inr ints, st)))"

text \<open>
  The body of the loop over the sampled users. The accumulator holds
  \<open>recommendation_results\<close> and \<open>results['interactions']\<close>. The pause of 0.1
  seconds that ends a pass changes nothing in the state modelled here, and neither do
  the log lines anywhere in the class.
\<close>

definition probe_user ::
  "probe \<Rightarrow> env \<Rightarrow> string \<Rightarrow> rec_entry list \<times> interaction list \<Rightarrow> state
     \<Rightarrow> (exn + rec_entry list \<times> interaction list) \<times> state" where
  "probe_user p e user_id acc st =
     (case random_choice e [''NYC'', ''SF'', ''LA'', ''Chicago''] st of
        (Inl x, st1) \<Rightarrow> (Inl x, st1)
      | (Inr location, st1) \<Rightarrow>
     (case random_choice e [''morning'', ''afternoon'', ''evening''] st1 of
        (Inl x, st2) \<Rightarrow> (Inl x, st2)
      | (Inr time_of_day, st2) \<Rightarrow>
     (let (rec_result, st3) =
            get_recommendations e user_id (Some (probe_options location time_of_day)) st2;
          recs = fst acc @ [\<lparr>re_user_id = user_id, re_result = rec_result\<rparr>]
      in if rec_status rec_result = ''success'' \<and> recommendations_count rec_result > 0 then
           (case track_interactions p e user_id rec_result (snd acc) st3 of
              (Inl x, st4) \<Rightarrow> (Inl x, st4)
            | (Inr ints, st4) \<Rightarrow> (Inr (recs, ints), st4))
         else (Inr (recs, snd acc), st3))))"

fun probe_users ::
  "probe \<Rightarrow> env \<Rightarrow> string list \<Rightarrow> rec_entry list \<times> interaction list \<Rightarrow> state
     \<Rightarrow> (exn + rec_entry list \<times> interaction list) \<times> state" where
  "probe_users p e [] acc st = (Inr acc, st)"
| "probe_users p e (user_id # rest) acc st =
     (case probe_user p e user_id acc st of
        (Inl x, st') \<Rightarrow> (Inl x, st')
      | (Inr acc', st') \<Rightarrow> probe_users p e rest acc' st')"

text \<open>
  The summary of a cycle that ran through. In the average, the sum ranges over the
  results whose response time is truthy (not \<open>None\<close> and not 0.0) and the divisor is
  the number of all results.
\<close>

definition is_successful :: "rec_entry \<Rightarrow> bool" where
  "is_successful r = (rec_status (re_result r) = ''success'')"

definition is_personalized :: "rec_entry \<Rightarrow> bool" where
  "is_personalized r =
     (rec_status (re_result r) = ''success'' \<and> recommendations_count (re_result r) > 0)"

definition summed_response_times :: "rec_entry list \<Rightarrow> real list" where
  "summed_response_times rs =
     List.map_filter
       (\<lambda>r. case rec_response_time (re_result r) of
              None \<Rightarrow> None
            | Some t \<Rightarrow> if t \<noteq> 0 then Some t else None) rs"

definition cycle_summary :: "real \<Rightarrow> rec_entry list \<Rightarrow> summary" where
  "cycle_summary elapsed recommendation_results =
     (let successful = length (filter is_successful recommendation_results);
          personalized = length (filter is_personalized recommendation_results)
      in \<lparr>sum_status = ''completed'', sum_reason = None,
          cycle_time = Some elapsed,
          total_requests = Some (length recommendation_results + 1),
          successful_recommendations = Some successful,
          personalized_responses = Some personalized,
          personalization_rate =
            Some (if recommendation_results \<noteq> []
                  then real personalized / real (length recommendation_results) else 0),
          avg_response_time =
            Some (if recommendation_results \<noteq> []
                  then sum_list (summed_response_times recommendation_results)
                         / real (length recommendation_results)
                  else 0)\<rparr>)"

text \<open>\<open>run_probe_cycle\<close>. An exception that escapes the cycle is the \<open>Inl\<close> result.\<close>

definition run_probe_cycle :: "probe \<Rightarrow> env \<Rightarrow> state \<Rightarrow> (exn + report) \<times> state" where
  "run_probe_cycle p e st =
     (let (cycle_start, st1) = time_time e st;
          (started_at, st2) = time_time e st1;
          (hc, st3) = health_check e st2
      in if hc_status hc \<noteq> ''healthy'' then
           (Inr \<lparr>rp_cycle_start = started_at, rp_health_check = hc, rp_recommendations = [],
                 rp_interactions = [], rp_model_comparison = None,
                 rp_summary = \<lparr>sum_status = ''failed'', sum_reason = Some ''API unhealthy'',
                                cycle_time = None, total_requests = None,
                                successful_recommendations = None,
                                personalized_responses = None, personalization_rate = None,
                                avg_response_time = None\<rparr>\<rparr>, st3)
         else
           (let (sampled, st4) =
                  random_sample e (test_users p) (min 5 (length (test_users p))) st3
            in case probe_users p e sampled ([], []) st4 of
                 (Inl x, st5) \<Rightarrow> (Inl x, st5)
               | (Inr (recommendation_results, ints), st5) \<Rightarrow>
                  (case random_choice e sampled st5 of
                     (Inl x, st6) \<Rightarrow> (Inl x, st6)
                   | (Inr comparison_user, st6) \<Rightarrow>
                      (let (cmp, st7) = compare_models e comparison_user st6;
                           (cycle_end, st8) = time_time e st7
                       in (Inr \<lparr>rp_cycle_start = started_at, rp_health_check = hc,
                                 rp_recommendations = recommendation_results,
                                 rp_interactions = ints, rp_model_comparison = Some cmp,
                                 rp_summary = cycle_summary (cycle_end - cycle_start)
                                                recommendation_results\<rparr>, st8)))))"

text \<open>The users sampled by a cycle started in a state: step 2 of \<open>run_probe_cycle\<close>.\<close>

definition sampled_users :: "probe \<Rightarrow> env \<Rightarrow> state \<Rightarrow> string list" where
  "sampled_users p e st =
     (let (cycle_start, st1) = time_time e st;
          (started_at, st2) = time_time e st1;
          (hc, st3) = health_check e st2
      in fst (random_sample e (test_users p) (min 5 (length (test_users p))) st3))"

subsection \<open>Outcomes of an HTTP call and concrete environments\<close>


text \<open>A state in which nothing has happened yet.\<close>

definition fresh :: state where
  "fresh = \<lparr>calls = [], clock_reads = 0, draws = 0\<rparr>"

text \<open>
  A server that answers every request with the same accepted response, and an
  environment around a server: the clock advances by one second per reading, the
  entropy is 0 and every \<open>random.random()\<close> gives the same draw.
\<close>

definition constant_server :: "json \<Rightarrow> nat \<Rightarrow> request \<Rightarrow> http_outcome" where
  "constant_server body n req = Responded None (Inr body) (1 / 2)"

definition env_of :: "(nat \<Rightarrow> request \<Rightarrow> http_outcome) \<Rightarrow> real \<Rightarrow> env" where
  "env_of server draw =
     \<lparr>env_server = server, env_clock = (\<lambda>n. real n), env_random = (\<lambda>n. draw),
      env_entropy = (\<lambda>n. 0)\<rparr>"

text \<open>A server that is down: every call fails in transport.\<close>

definition down_server :: "nat \<Rightarrow> request \<Rightarrow> http_outcome" where
  "down_server n req = SendFailed ''connection refused''"

text \<open>
  A server whose recommendations carry one item \<open>ride_003\<close>; its other endpoints answer
  with an empty object.
\<close>

definition ride_body :: json where
  "ride_body =
     JObj [(''recommendations'', JArr [JObj [(''itemId'', JStr ''ride_003'')]]),
           (''model'', JStr ''collab-v2''), (''requestId'', JStr ''r1''), (''latency'', JInt 12)]"

fun ride_server :: "nat \<Rightarrow> request \<Rightarrow> http_outcome" where
  "ride_server n (RecommendReq u opts) = Responded None (Inr ride_body) (1 / 2)"
| "ride_server n req = Responded None (Inr (JObj [])) (1 / 2)"

text \<open>A probe with a single test user and a single test item.\<close>

definition small_probe :: probe where
  "small_probe = \<lparr>test_users = [''user_001''], test_items = [''ride_001'']\<rparr>"

text \<open>
  A server that answers the first recommendation request of a cycle (the call after the
  health check) and times out on the later ones.
\<close>

fun flaky_server :: "nat \<Rightarrow> request \<Rightarrow> http_outcome" where
  "flaky_server n (RecommendReq u opts) =
     (if n = 1 then Responded None (Inr (JObj [])) (1 / 2) else SendFailed ''timed out'')"
| "flaky_server n req = Responded None (Inr (JObj [])) (1 / 2)"

text \<open>
  A server whose recommendations are a list of bare item names rather than objects.
\<close>

fun bare_item_server :: "nat \<Rightarrow> request \<Rightarrow> http_outcome" where
  "bare_item_server n (RecommendReq u opts) =
     Responded None (Inr (JObj [(''recommendations'', JArr [JStr ''ride_003''])])) (1 / 2)"
| "bare_item_server n req = Responded None (Inr (JObj [])) (1 / 2)"

subsection \<open>Reading a run: the call log and the report\<close>

text \<open>The calls issued between two states.\<close>

definition issued :: "state \<Rightarrow> state \<Rightarrow> request list" where
  "issued st st' = drop (length (calls st)) (calls st')"

text \<open>A call with the options of a recommendation request blanked out.\<close>

fun without_options :: "request \<Rightarrow> request" where
  "without_options (RecommendReq u opts) = RecommendReq u JNull"
| "without_options req = req"

fun is_recommend_call :: "request \<Rightarrow> bool" where
  "is_recommend_call (RecommendReq u opts) = True"
| "is_recommend_call req = False"

fun is_track_call :: "request \<Rightarrow> bool" where
  "is_track_call (TrackReq u i k) = True"
| "is_track_call req = False"

fun is_compare_call :: "request \<Rightarrow> bool" where
  "is_compare_call (CompareReq u) = True"
| "is_compare_call req = False"

fun is_health_call :: "request \<Rightarrow> bool" where
  "is_health_call HealthReq = True"
| "is_health_call req = False"

text \<open>The tracking calls of a given label in a list of calls.\<close>

fun has_label :: "string \<Rightarrow> request \<Rightarrow> bool" where
  "has_label k (TrackReq u i k') = (k' = k)"
| "has_label k req = False"

text \<open>
  The tracking call that an entry of the interactions list records: an entry without
  the \<open>rating\<close> key is a view, one with the key is a rating.
\<close>

definition track_call_of :: "interaction \<Rightarrow> request" where
  "track_call_of i =
     TrackReq (ie_user_id i) (ie_item_id i) (if ie_rating i = None then ''view'' else ''rate'')"

text \<open>
  The fields of the first recommendation in a result, when the body is an object whose
  \<open>recommendations\<close> is a list that starts with an object.
\<close>

definition first_recommendation :: "rec_result \<Rightarrow> (string \<times> json) list option" where
  "first_recommendation r =
     (case rec_data r of
        Some (JObj kvs) \<Rightarrow>
          (case map_of kvs ''recommendations'' of
             Some (JArr (JObj f # rest)) \<Rightarrow> Some f
           | _ \<Rightarrow> None)
      | _ \<Rightarrow> None)"

text \<open>
  An item is the one to view for a result: the \<open>itemId\<close> of the first recommendation,
  or an item of the probe's pool when the first recommendation has no such field.
\<close>

definition viewed_item :: "probe \<Rightarrow> rec_result \<Rightarrow> json \<Rightarrow> bool" where
  "viewed_item p r item =
     (case first_recommendation r of
        None \<Rightarrow> False
      | Some f \<Rightarrow>
          (case map_of f ''itemId'' of
             Some v \<Rightarrow> item = v
           | None \<Rightarrow> item \<in> JStr ` set (test_items p)))"

text \<open>
  What one pass of the loop may append to the interactions list for a recommendation
  entry: nothing when the result is not a success with recommendations; otherwise a view
  entry for the item to view, alone or followed by a rating entry for the same user and
  item with a rating from 1 to 5.
\<close>

definition view_entry :: "probe \<Rightarrow> rec_entry \<Rightarrow> interaction \<Rightarrow> bool" where
  "view_entry p r v =
     (ie_user_id v = re_user_id r \<and> ie_rating v = None
      \<and> viewed_item p (re_result r) (ie_item_id v))"

definition rate_entry :: "interaction \<Rightarrow> interaction \<Rightarrow> bool" where
  "rate_entry v w =
     (ie_user_id w = ie_user_id v \<and> ie_item_id w = ie_item_id v
      \<and> (case ie_rating w of None \<Rightarrow> False | Some k \<Rightarrow> 1 \<le> k \<and> k \<le> 5))"

fun user_entries :: "probe \<Rightarrow> rec_entry \<Rightarrow> interaction list \<Rightarrow> bool" where
  "user_entries p r [] = (\<not> is_personalized r)"
| "user_entries p r [v] = (is_personalized r \<and> view_entry p r v)"
| "user_entries p r [v, w] = (is_personalized r \<and> view_entry p r v \<and> rate_entry v w)"
| "user_entries p r (v # w # x # xs) = False"

text \<open>The calls of one pass of the loop, options blanked out.\<close>

definition user_calls :: "rec_entry \<Rightarrow> interaction list \<Rightarrow> request list" where
  "user_calls r entries = RecommendReq (re_user_id r) JNull # map track_call_of entries"

section \<open>Properties\<close>

subsection \<open>The health check and the short circuit\<close>

lemma health_check_clock:
  "health_check e (st\<lparr>clock_reads := c\<rparr>) =
     (fst (health_check e st), (snd (health_check e st))\<lparr>clock_reads := c\<rparr>)"
  by (simp add: health_check_def health_check_try_def http_call_def
           split: http_outcome.splits option.splits sum.splits)

lemma health_check_state:
  "snd (health_check e st) = st\<lparr>calls := calls st @ [HealthReq]\<rparr>"
  by (simp add: health_check_def health_check_try_def http_call_def
           split: http_outcome.splits option.splits sum.splits)

text \<open>
  C1. When the health check of a cycle gives a status other than \<open>healthy\<close>, the cycle
  returns a report with summary \<open>{status: failed, reason: API unhealthy}\<close>, empty
  recommendations and interactions and an empty model comparison. The only HTTP call
  issued is the health check, and nothing is drawn from the random source: no
  recommendation, tracking or comparison operation is attempted.
\<close>

theorem unhealthy_short_circuit:
  assumes "hc_status (fst (health_check e st)) \<noteq> ''healthy''"
  shows "fst (run_probe_cycle p e st) =
           Inr \<lparr>rp_cycle_start = env_clock e (Suc (clock_reads st)),
                rp_health_check = fst (health_check e st),
                rp_recommendations = [], rp_interactions = [], rp_model_comparison = None,
                rp_summary = \<lparr>sum_status = ''failed'', sum_reason = Some ''API unhealthy'',
                               cycle_time = None, total_requests = None,
                               successful_recommendations = None,
                               personalized_responses = None, personalization_rate = None,
                               avg_response_time = None\<rparr>\<rparr>
         \<and> calls (snd (run_probe_cycle p e st)) = calls st @ [HealthReq]
         \<and> draws (snd (run_probe_cycle p e st)) = draws st"
  using assms
  by (simp add: run_probe_cycle_def time_time_def health_check_clock health_check_state
           split: prod.splits)

theorem unhealthy_short_circuit_witness:
  "hc_status (fst (health_check (env_of down_server 0) fresh)) \<noteq> ''healthy''
   \<and> rp_recommendations (projr (fst (run_probe_cycle init (env_of down_server 0) fresh))) = []
   \<and> sum_status (rp_summary (projr (fst (run_probe_cycle init (env_of down_server 0) fresh))))
        = ''failed''
   \<and> calls (snd (run_probe_cycle init (env_of down_server 0) fresh)) = [HealthReq]"
proof -
  have h: "hc_status (fst (health_check (env_of down_server 0) fresh)) \<noteq> ''healthy''"
    by code_simp
  show ?thesis
    using h unhealthy_short_circuit [OF h, of init] by (simp add: fresh_def)
qed

subsection \<open>Recommendation requests\<close>




text \<open>
  C6, amended. For an accepted response whose parsed body is a JSON object in which
  \<open>recommendations\<close> is absent or a list, the result has status \<open>success\<close>,
  \<open>recommendations_count\<close> is the length of that list (0 when absent), \<open>model_used\<close>
  and \<open>request_id\<close> default to \<open>unknown\<close>, \<open>latency\<close> defaults to 0, \<open>data\<close>
  is the whole body, and the response time is the difference of the two clock readings
  around the call. A body that parses to something other than an object, a list say,
  gives an error result instead, as the last theorem of this subsection shows.
\<close>

theorem get_recommendations_defaults:
  assumes "env_server e (length (calls st)) (RecommendReq user_id (options_or_empty options))
             = Responded None (Inr (JObj kvs)) elapsed"
    and "map_of kvs ''recommendations'' = None \<or> map_of kvs ''recommendations'' = Some (JArr items)"
  shows "fst (get_recommendations e user_id options st) =
           \<lparr>rec_status = ''success'', rec_error = None,
            rec_response_time =
              Some (env_clock e (Suc (clock_reads st)) - env_clock e (clock_reads st)),
            recommendations_count =
              (if map_of kvs ''recommendations'' = None then 0 else length items),
            model_used = Some (case map_of kvs ''model'' of None \<Rightarrow> JStr ''unknown'' | Some v \<Rightarrow> v),
            request_id =
              Some (case map_of kvs ''requestId'' of None \<Rightarrow> JStr ''unknown'' | Some v \<Rightarrow> v),
            latency = Some (case map_of kvs ''latency'' of None \<Rightarrow> JInt 0 | Some v \<Rightarrow> v),
            rec_data = Some (JObj kvs)\<rparr>"
  using assms
  by (auto simp: get_recommendations_def get_recommendations_try_def http_call_def
                 time_time_def recommendation_result_def Let_def
           split: option.splits)

theorem get_recommendations_defaults_witness:
  "env_server (env_of ride_server 0) (length (calls fresh))
       (RecommendReq ''user_001'' (options_or_empty None))
     = Responded None (Inr ride_body) (1 / 2)
   \<and> recommendations_count
        (fst (get_recommendations (env_of ride_server 0) ''user_001'' None fresh)) = 1
   \<and> model_used (fst (get_recommendations (env_of ride_server 0) ''user_001'' None fresh))
        = Some (JStr ''collab-v2'')
   \<and> rec_status (fst (get_recommendations (env_of (constant_server (JObj [])) 0)
                        ''user_001'' None fresh)) = ''success''
   \<and> recommendations_count (fst (get_recommendations (env_of (constant_server (JObj [])) 0)
                        ''user_001'' None fresh)) = 0
   \<and> model_used (fst (get_recommendations (env_of (constant_server (JObj [])) 0)
                        ''user_001'' None fresh)) = Some (JStr ''unknown'')"
proof -
  have h1: "env_server (env_of ride_server 0) (length (calls fresh))
       (RecommendReq ''user_001'' (options_or_empty None))
     = Responded None (Inr (JObj [(''recommendations'', JArr [JObj [(''itemId'', JStr ''ride_003'')]]),
           (''model'', JStr ''collab-v2''), (''requestId'', JStr ''r1''), (''latency'', JInt 12)])) (1 / 2)"
    by (simp add: env_of_def ride_body_def)
  have h2: "env_server (env_of (constant_server (JObj [])) 0) (length (calls fresh))
       (RecommendReq ''user_001'' (options_or_empty None))
     = Responded None (Inr (JObj [])) (1 / 2)"
    by (simp add: env_of_def constant_server_def)
  show ?thesis
    using get_recommendations_defaults [OF h1, of "[JObj [(''itemId'', JStr ''ride_003'')]]"]
          get_recommendations_defaults [OF h2, of "[]"] h1
    by (simp add: ride_body_def)
qed

theorem get_recommendations_non_object_body:
  "env_server (env_of (constant_server (JArr [])) 0) (length (calls fresh))
       (RecommendReq ''user_001'' (options_or_empty None))
     = Responded None (Inr (JArr [])) (1 / 2)
   \<and> rec_status (fst (get_recommendations (env_of (constant_server (JArr [])) 0)
                        ''user_001'' None fresh)) = ''error''"
  by (simp add: get_recommendations_def get_recommendations_try_def env_of_def
                constant_server_def fresh_def http_call_def time_time_def
                recommendation_result_def)

subsection \<open>The summary of a completed cycle\<close>

lemma probe_user_recs:
  assumes "probe_user p e u acc st = (Inr acc', st')"
  shows "\<exists>r. fst acc' = fst acc @ [\<lparr>re_user_id = u, re_result = r\<rparr>]"
  using assms
  by (auto simp: probe_user_def Let_def split: prod.splits sum.splits if_splits)

lemma probe_users_user_ids:
  "probe_users p e us acc st = (Inr acc', st')
     \<Longrightarrow> map re_user_id (fst acc') = map re_user_id (fst acc) @ us"
proof (induction us arbitrary: acc st)
  case Nil
  then show ?case by simp
next
  case (Cons u us)
  from Cons.prems obtain acc1 st1 where
    step: "probe_user p e u acc st = (Inr acc1, st1)" and
    rest: "probe_users p e us acc1 st1 = (Inr acc', st')"
    by (auto split: prod.splits sum.splits)
  from probe_user_recs [OF step] obtain r where
    "fst acc1 = fst acc @ [\<lparr>re_user_id = u, re_result = r\<rparr>]" ..
  with Cons.IH [OF rest] show ?case by simp
qed

lemma run_probe_cycle_completed:
  assumes "fst (run_probe_cycle p e st) = Inr rep"
    and "sum_status (rp_summary rep) = ''completed''"
  shows "(\<exists>t. rp_summary rep = cycle_summary t (rp_recommendations rep))
         \<and> map re_user_id (rp_recommendations rep) = sampled_users p e st"
  using assms
  by (auto simp: run_probe_cycle_def sampled_users_def Let_def
           split: prod.splits sum.splits if_splits dest: probe_users_user_ids)

lemma count_le_length_real:
  "xs \<noteq> [] \<Longrightarrow> real (length (filter P xs)) / real (length xs) \<le> 1"
  by (simp add: divide_le_eq)

text \<open>
  C2. In a cycle that ran through (summary status \<open>completed\<close>) the report has one
  recommendation entry per sampled user, in order; \<open>personalized_responses\<close> is the
  number of entries whose result has status \<open>success\<close> and a positive
  \<open>recommendations_count\<close>; \<open>personalization_rate\<close> is that number divided by the
  number of sampled users, or 0 when no user was sampled; and the rate lies between 0
  and 1.
\<close>

theorem personalization_rate_exact:
  assumes "fst (run_probe_cycle p e st) = Inr rep"
    and "sum_status (rp_summary rep) = ''completed''"
  shows "map re_user_id (rp_recommendations rep) = sampled_users p e st
   \<and> personalized_responses (rp_summary rep) =
       Some (length (filter (\<lambda>r. rec_status (re_result r) = ''success''
                               \<and> recommendations_count (re_result r) > 0)
                     (rp_recommendations rep)))
   \<and> personalization_rate (rp_summary rep) =
       Some (if sampled_users p e st = [] then 0
             else real (length (filter (\<lambda>r. rec_status (re_result r) = ''success''
                                          \<and> recommendations_count (re_result r) > 0)
                                (rp_recommendations rep)))
                  / real (length (sampled_users p e st)))
   \<and> (case personalization_rate (rp_summary rep) of
         None \<Rightarrow> False | Some x \<Rightarrow> 0 \<le> x \<and> x \<le> 1)"
proof -
  from run_probe_cycle_completed [OF assms] obtain t where
    s: "rp_summary rep = cycle_summary t (rp_recommendations rep)" and
    u: "map re_user_id (rp_recommendations rep) = sampled_users p e st" by blast
  have len: "length (sampled_users p e st) = length (rp_recommendations rep)"
    using u by (metis length_map)
  have emp: "(sampled_users p e st = []) = (rp_recommendations rep = [])"
    using len by auto
  have P: "is_personalized = (\<lambda>r. rec_status (re_result r) = ''success''
                               \<and> recommendations_count (re_result r) > 0)"
    by (rule ext) (simp add: is_personalized_def)
  show ?thesis
    using u by (simp add: s cycle_summary_def Let_def len emp P count_le_length_real)
qed

lemma personalized_le_successful:
  "length (filter is_personalized rs) \<le> length (filter is_successful rs)"
  by (induction rs) (auto simp: is_personalized_def is_successful_def)

text \<open>
  C8. In a cycle that ran through,
  \<open>0 \<le> personalized_responses \<le> successful_recommendations \<le>\<close> number of sampled
  users.
\<close>

theorem summary_count_chain:
  assumes "fst (run_probe_cycle p e st) = Inr rep"
    and "sum_status (rp_summary rep) = ''completed''"
  shows "\<exists>pr sr. personalized_responses (rp_summary rep) = Some pr
           \<and> successful_recommendations (rp_summary rep) = Some sr
           \<and> 0 \<le> pr \<and> pr \<le> sr \<and> sr \<le> length (sampled_users p e st)"
proof -
  from run_probe_cycle_completed [OF assms] obtain t where
    s: "rp_summary rep = cycle_summary t (rp_recommendations rep)" and
    u: "map re_user_id (rp_recommendations rep) = sampled_users p e st" by blast
  have len: "length (sampled_users p e st) = length (rp_recommendations rep)"
    using u by (metis length_map)
  show ?thesis
    using personalized_le_successful [of "rp_recommendations rep"]
    by (simp add: s cycle_summary_def Let_def len)
qed

theorem personalization_rate_exact_witness:
  "fst (run_probe_cycle small_probe (env_of ride_server 0) fresh) = Inr (projr (fst (run_probe_cycle small_probe (env_of ride_server 0) fresh)))
   \<and> sum_status (rp_summary (projr (fst (run_probe_cycle small_probe (env_of ride_server 0) fresh)))) = ''completed''
   \<and> sampled_users small_probe (env_of ride_server 0) fresh = [''user_001'']
   \<and> personalized_responses (rp_summary (projr (fst (run_probe_cycle small_probe (env_of ride_server 0) fresh)))) = Some 1
   \<and> personalization_rate (rp_summary (projr (fst (run_probe_cycle small_probe (env_of ride_server 0) fresh)))) = Some 1"
proof -
  have h1: "fst (run_probe_cycle small_probe (env_of ride_server 0) fresh) = Inr (projr (fst (run_probe_cycle small_probe (env_of ride_server 0) fresh)))"
    by code_simp
  have h2: "sum_status (rp_summary (projr (fst (run_probe_cycle small_probe (env_of ride_server 0) fresh)))) = ''completed''"
    by code_simp
  have h3: "sampled_users small_probe (env_of ride_server 0) fresh = [''user_001'']"
    by code_simp
  have h4: "length (filter (\<lambda>r. rec_status (re_result r) = ''success''
                               \<and> recommendations_count (re_result r) > 0)
                     (rp_recommendations (projr (fst (run_probe_cycle small_probe (env_of ride_server 0) fresh))))) = 1"
    by code_simp
  show ?thesis
    using personalization_rate_exact [OF h1 h2] h1 h2 h3 h4 by simp
qed

theorem summary_count_chain_witness:
  "fst (run_probe_cycle init (env_of flaky_server 0) fresh) = Inr (projr (fst (run_probe_cycle init (env_of flaky_server 0) fresh)))
   \<and> sum_status (rp_summary (projr (fst (run_probe_cycle init (env_of flaky_server 0) fresh)))) = ''completed''
   \<and> personalized_responses (rp_summary (projr (fst (run_probe_cycle init (env_of flaky_server 0) fresh)))) = Some 0
   \<and> successful_recommendations (rp_summary (projr (fst (run_probe_cycle init (env_of flaky_server 0) fresh)))) = Some 1
   \<and> length (sampled_users init (env_of flaky_server 0) fresh) = 5"
proof -
  have h1: "fst (run_probe_cycle init (env_of flaky_server 0) fresh) = Inr (projr (fst (run_probe_cycle init (env_of flaky_server 0) fresh)))"
    by code_simp
  have h2: "sum_status (rp_summary (projr (fst (run_probe_cycle init (env_of flaky_server 0) fresh)))) = ''completed''"
    by code_simp
  have h3: "personalized_responses (rp_summary (projr (fst (run_probe_cycle init (env_of flaky_server 0) fresh)))) = Some 0"
    by code_simp
  have h4: "successful_recommendations (rp_summary (projr (fst (run_probe_cycle init (env_of flaky_server 0) fresh)))) = Some 1"
    by code_simp
  have h5: "length (sampled_users init (env_of flaky_server 0) fresh) = 5"
    by code_simp
  show ?thesis
    using summary_count_chain [OF h1 h2] h1 h2 h3 h4 h5 by simp
qed

text \<open>
  C3. The claim is that \<open>avg_response_time\<close> is the mean over the results that have
  a response time. The code sums over those results and divides by the number of all
  results. With the probe's ten test users and a server that answers the first
  recommendation request in one second and times out on the other four, one result has
  a response time, of 1 second, so that the mean is 1; the summary reports 1/5.
\<close>

theorem avg_response_time_divides_by_all:
  "map (\<lambda>r. rec_response_time (re_result r)) (rp_recommendations (projr (fst (run_probe_cycle init (env_of flaky_server 0) fresh))))
     = [Some 1, None, None, None, None]
   \<and> avg_response_time (rp_summary (projr (fst (run_probe_cycle init (env_of flaky_server 0) fresh)))) = Some (1 / 5)"
  by code_simp

subsection \<open>The calls of the operations\<close>

lemma track_interaction_state:
  "snd (track_interaction e u i k st) = st\<lparr>calls := calls st @ [TrackReq u i k]\<rparr>"
  by (simp add: track_interaction_def track_interaction_try_def http_call_def
           split: http_outcome.splits option.splits sum.splits)

lemma track_interaction_eq:
  "track_interaction e u i k st = (r, st') \<Longrightarrow> st' = st\<lparr>calls := calls st @ [TrackReq u i k]\<rparr>"
  using track_interaction_state [of e u i k st] by simp

lemma compare_models_state:
  "snd (compare_models e u st) = st\<lparr>calls := calls st @ [CompareReq u]\<rparr>"
  by (simp add: compare_models_def compare_models_try_def http_call_def
           split: http_outcome.splits option.splits sum.splits)

lemma get_recommendations_calls:
  "calls (snd (get_recommendations e u opts st)) = calls st @ [RecommendReq u (options_or_empty opts)]"
  "draws (snd (get_recommendations e u opts st)) = draws st"
  by (simp_all add: get_recommendations_def get_recommendations_try_def http_call_def time_time_def Let_def
           split: http_outcome.splits option.splits sum.splits prod.splits)

lemma py_len_truthy: "py_len v = Inr n \<Longrightarrow> 0 < n \<Longrightarrow> py_truthy v"
  by (cases v) auto

lemma recommendation_result_data:
  assumes "recommendation_result t data = Inr r"
  shows "rec_status r = ''success'' \<and> rec_data r = Some data
         \<and> (\<exists>recs. py_get data ''recommendations'' (JArr []) = Inr recs
                   \<and> py_len recs = Inr (recommendations_count r))"
  using assms by (auto simp: recommendation_result_def split: sum.splits)

lemma get_recommendations_try_Inr:
  assumes "get_recommendations_try e u opts st = (Inr r, st')"
  shows "\<exists>t data. recommendation_result t data = Inr r"
  using assms
  by (auto simp: get_recommendations_try_def Let_def
           split: http_outcome.splits option.splits sum.splits prod.splits)

lemma get_recommendations_success:
  assumes "rec_status (fst (get_recommendations e u opts st)) = ''success''"
  shows "\<exists>data recs. rec_data (fst (get_recommendations e u opts st)) = Some data
         \<and> py_get data ''recommendations'' (JArr []) = Inr recs
         \<and> py_len recs = Inr (recommendations_count (fst (get_recommendations e u opts st)))"
proof (cases "get_recommendations_try e u opts st")
  case (Pair res st')
  show ?thesis
  proof (cases res)
    case (Inl x)
    with Pair assms show ?thesis by (simp add: get_recommendations_def)
  next
    case (Inr r)
    with Pair have r: "fst (get_recommendations e u opts st) = r"
      by (simp add: get_recommendations_def)
    from Pair Inr get_recommendations_try_Inr obtain t data where
      "recommendation_result t data = Inr r" by blast
    from recommendation_result_data [OF this] r show ?thesis by auto
  qed
qed

subsection \<open>One pass of the loop\<close>

lemma first_object:
  assumes "py_get data ''recommendations'' (JArr []) = Inr recs"
    and "py_first recs = Inr first_rec"
    and "py_get first_rec ''itemId'' d = Inr item"
    and "rec_data r = Some data"
  shows "\<exists>f. first_rec = JObj f \<and> first_recommendation r = Some f"
proof -
  from assms(3) obtain f where f: "first_rec = JObj f" by (cases first_rec) auto
  from assms(2) f obtain rest where recs: "recs = JArr (JObj f # rest)"
    by (cases recs rule: py_first.cases) auto
  from assms(1) recs obtain kvs where
    "data = JObj kvs" "map_of kvs ''recommendations'' = Some (JArr (JObj f # rest))"
    by (cases data) (auto split: option.splits)
  with assms(4) f show ?thesis by (simp add: first_recommendation_def)
qed

lemma random_choice_member:
  "random_choice e xs st = (Inr x, st') \<Longrightarrow> x \<in> set xs \<and> st' = st\<lparr>draws := Suc (draws st)\<rparr>"
  by (auto simp: random_choice_def split: if_splits)

lemma viewed_itemI:
  assumes "first_recommendation r = Some f"
    and "py_get (JObj f) ''itemId'' (JStr fallback) = Inr item"
    and "fallback \<in> set (test_items p)"
  shows "viewed_item p r item"
  using assms by (auto simp: viewed_item_def split: option.splits)

lemma track_interactions_Inr:
  assumes blk: "track_interactions p e u r ints st = (Inr ints', st')"
    and data: "rec_data r = Some data"
              "py_get data ''recommendations'' (JArr []) = Inr recs" "py_truthy recs"
  shows "\<exists>item tr. viewed_item p r item \<and>
           (if env_random e (Suc (draws st)) > 7 / 10
            then (\<exists>tr2. ints' = ints @
                     [\<lparr>ie_user_id = u, ie_item_id = item, ie_rating = None, ie_result = tr\<rparr>,
                      \<lparr>ie_user_id = u, ie_item_id = item,
                       ie_rating = Some (1 + int (env_entropy e (Suc (Suc (draws st))) mod 5)),
                       ie_result = tr2\<rparr>])
                 \<and> calls st' = calls st @ [TrackReq u item ''view'', TrackReq u item ''rate'']
            else ints' = ints @
                     [\<lparr>ie_user_id = u, ie_item_id = item, ie_rating = None, ie_result = tr\<rparr>]
                 \<and> calls st' = calls st @ [TrackReq u item ''view''])"
proof -
  from blk data obtain first_rec where
    first: "py_first recs = Inr first_rec"
    by (auto simp: track_interactions_def split: sum.splits)
  from blk data first obtain d0 where
    g0: "py_get first_rec ''itemId'' JNull = Inr d0"
    by (auto simp: track_interactions_def split: sum.splits)
  from first_object [OF data(2) first g0 data(1)] obtain f where
    f: "first_rec = JObj f" "first_recommendation r = Some f" by blast
  from blk data first g0 obtain fallback st1 where
    ch: "random_choice e (test_items p) st = (Inr fallback, st1)"
    by (auto simp: track_interactions_def split: sum.splits prod.splits)
  from random_choice_member [OF ch] have
    fb: "fallback \<in> set (test_items p)" and st1: "st1 = st\<lparr>draws := Suc (draws st)\<rparr>" by auto
  obtain item where item: "py_get first_rec ''itemId'' (JStr fallback) = Inr item"
    using f by simp
  have vi: "viewed_item p r item"
    using viewed_itemI [OF f(2) _ fb] item f(1) by simp
  obtain tr st2 where t1: "track_interaction e u item ''view'' st1 = (tr, st2)"
    by (cases "track_interaction e u item ''view'' st1")
  from track_interaction_eq [OF t1] st1 have
    st2: "st2 = st\<lparr>draws := Suc (draws st), calls := calls st @ [TrackReq u item ''view'']\<rparr>"
    by simp
  show ?thesis
  proof (cases "env_random e (Suc (draws st)) > 7 / 10")
    case True
    obtain tr2 st5 where
      t2: "track_interaction e u item ''rate''
             (st2\<lparr>draws := Suc (Suc (Suc (draws st)))\<rparr>) = (tr2, st5)"
      by (cases "track_interaction e u item ''rate''
             (st2\<lparr>draws := Suc (Suc (Suc (draws st)))\<rparr>)")
    from track_interaction_eq [OF t2] st2 have
      st5: "calls st5 = calls st @ [TrackReq u item ''view'', TrackReq u item ''rate'']"
      by simp
    from blk data first g0 ch item t1 True t2 st2 have
      "ints' = ints @
         [\<lparr>ie_user_id = u, ie_item_id = item, ie_rating = None, ie_result = tr\<rparr>,
          \<lparr>ie_user_id = u, ie_item_id = item,
           ie_rating = Some (1 + int (env_entropy e (Suc (Suc (draws st))) mod 5)),
           ie_result = tr2\<rparr>] \<and> st' = st5"
      by (simp add: track_interactions_def random_random_def random_randint_def)
    with st5 vi True show ?thesis by auto
  next
    case False
    from blk data first g0 ch item t1 False st2 have
      "ints' = ints @
         [\<lparr>ie_user_id = u, ie_item_id = item, ie_rating = None, ie_result = tr\<rparr>]
       \<and> st' = st2\<lparr>draws := Suc (Suc (draws st))\<rparr>"
      by (simp add: track_interactions_def random_random_def)
    with st2 vi False show ?thesis by auto
  qed
qed

lemma probe_user_step:
  assumes "probe_user p e u (recs, ints) st = (Inr (recs', ints'), st')"
  shows "\<exists>r opts. recs' = recs @ [\<lparr>re_user_id = u, re_result = r\<rparr>] \<and>
           (if rec_status r = ''success'' \<and> recommendations_count r > 0 then
              (\<exists>item tr. viewed_item p r item \<and>
                 (if env_random e (draws st + 3) > 7 / 10
                  then (\<exists>tr2. ints' = ints @
                           [\<lparr>ie_user_id = u, ie_item_id = item, ie_rating = None,
                             ie_result = tr\<rparr>,
                            \<lparr>ie_user_id = u, ie_item_id = item,
                             ie_rating = Some (1 + int (env_entropy e (draws st + 4) mod 5)),
                             ie_result = tr2\<rparr>])
                       \<and> calls st' = calls st @
                           [RecommendReq u opts, TrackReq u item ''view'',
                            TrackReq u item ''rate'']
                  else ints' = ints @
                           [\<lparr>ie_user_id = u, ie_item_id = item, ie_rating = None,
                             ie_result = tr\<rparr>]
                       \<and> calls st' = calls st @
                           [RecommendReq u opts, TrackReq u item ''view'']))
            else ints' = ints \<and> calls st' = calls st @ [RecommendReq u opts])"
proof -
  define location where
    "location = [''NYC'', ''SF'', ''LA'', ''Chicago''] ! (env_entropy e (draws st) mod 4)"
  define time_of_day where
    "time_of_day = [''morning'', ''afternoon'', ''evening''] ! (env_entropy e (Suc (draws st)) mod 3)"
  define st2 where "st2 = st\<lparr>draws := Suc (Suc (draws st))\<rparr>"
  define opts where "opts = probe_options location time_of_day"
  obtain r st3 where g: "get_recommendations e u (Some opts) st2 = (r, st3)"
    by (cases "get_recommendations e u (Some opts) st2")
  have oe: "options_or_empty (Some opts) = opts"
    by (simp add: options_or_empty_def opts_def probe_options_def)
  from g get_recommendations_calls [of e u "Some opts" st2] have
    c3: "calls st3 = calls st @ [RecommendReq u opts]" and d3: "draws st3 = draws st + 2"
    by (simp_all add: st2_def oe)
  have unf: "probe_user p e u (recs, ints) st =
      (if rec_status r = ''success'' \<and> recommendations_count r > 0 then
         (case track_interactions p e u r ints st3 of
            (Inl x, st4) \<Rightarrow> (Inl x, st4)
          | (Inr ints2, st4) \<Rightarrow> (Inr (recs @ [\<lparr>re_user_id = u, re_result = r\<rparr>], ints2), st4))
       else (Inr (recs @ [\<lparr>re_user_id = u, re_result = r\<rparr>], ints), st3))"
    using g
    by (simp add: probe_user_def random_choice_def location_def time_of_day_def st2_def
                  opts_def Let_def)
  show ?thesis
  proof (cases "rec_status r = ''success'' \<and> recommendations_count r > 0")
    case False
    with assms unf c3 show ?thesis by auto
  next
    case True
    with assms unf have
      blk: "track_interactions p e u r ints st3 = (Inr ints', st')" and
      rs: "recs' = recs @ [\<lparr>re_user_id = u, re_result = r\<rparr>]"
      by (auto split: prod.splits sum.splits)
    from True g get_recommendations_success [of e u "Some opts" st2] obtain data rcs where
      d: "rec_data r = Some data" "py_get data ''recommendations'' (JArr []) = Inr rcs"
         "py_len rcs = Inr (recommendations_count r)" by auto
    from py_len_truthy [OF d(3)] True have tr: "py_truthy rcs" by simp
    from track_interactions_Inr [OF blk d(1) d(2) tr] obtain item tr1 where
      vi: "viewed_item p r item" and
      br: "if env_random e (Suc (draws st3)) > 7 / 10
            then (\<exists>tr2. ints' = ints @
                     [\<lparr>ie_user_id = u, ie_item_id = item, ie_rating = None, ie_result = tr1\<rparr>,
                      \<lparr>ie_user_id = u, ie_item_id = item,
                       ie_rating = Some (1 + int (env_entropy e (Suc (Suc (draws st3))) mod 5)),
                       ie_result = tr2\<rparr>])
                 \<and> calls st' = calls st3 @ [TrackReq u item ''view'', TrackReq u item ''rate'']
            else ints' = ints @
                     [\<lparr>ie_user_id = u, ie_item_id = item, ie_rating = None, ie_result = tr1\<rparr>]
                 \<and> calls st' = calls st3 @ [TrackReq u item ''view'']"
      by blast
    have idx: "Suc (draws st3) = draws st + 3" "Suc (Suc (draws st3)) = draws st + 4"
      using d3 by simp_all
    note br' = br [unfolded idx(2), unfolded idx(1)]
    show ?thesis
    proof (cases "env_random e (draws st + 3) > 7 / 10")
      case hi: True
      from br' have
        "(\<exists>tr2. ints' = ints @
                     [\<lparr>ie_user_id = u, ie_item_id = item, ie_rating = None, ie_result = tr1\<rparr>,
                      \<lparr>ie_user_id = u, ie_item_id = item,
                       ie_rating = Some (1 + int (env_entropy e (draws st + 4) mod 5)),
                       ie_result = tr2\<rparr>])
         \<and> calls st' = calls st3 @ [TrackReq u item ''view'', TrackReq u item ''rate'']"
        by (simp only: if_P [OF hi])
      then obtain tr2 where
        i2: "ints' = ints @
           [\<lparr>ie_user_id = u, ie_item_id = item, ie_rating = None, ie_result = tr1\<rparr>,
            \<lparr>ie_user_id = u, ie_item_id = item,
             ie_rating = Some (1 + int (env_entropy e (draws st + 4) mod 5)),
             ie_result = tr2\<rparr>]" and
        c2: "calls st' = calls st3 @ [TrackReq u item ''view'', TrackReq u item ''rate'']"
        by blast
      have c2': "calls st' = calls st @
                   [RecommendReq u opts, TrackReq u item ''view'', TrackReq u item ''rate'']"
        using c2 c3 by simp
      from hi True rs vi i2 c2' show ?thesis
        by (intro exI [of _ r] exI [of _ opts]) (simp only: if_P simp_thms, blast)
    next
      case lo: False
      from br' have
        i1: "ints' = ints @
           [\<lparr>ie_user_id = u, ie_item_id = item, ie_rating = None, ie_result = tr1\<rparr>]" and
        c1: "calls st' = calls st3 @ [TrackReq u item ''view'']"
        by (simp_all only: if_not_P [OF lo])
      have c1': "calls st' = calls st @ [RecommendReq u opts, TrackReq u item ''view'']"
        using c1 c3 by simp
      from lo True rs vi i1 c1' show ?thesis
        by (intro exI [of _ r] exI [of _ opts]) (simp only: if_P if_not_P simp_thms, blast)
    qed
  qed
qed

lemma probe_user_chunk:
  assumes "probe_user p e u (recs, ints) st = (Inr (recs', ints'), st')"
  shows "\<exists>r chunk opts. recs' = recs @ [r] \<and> re_user_id r = u \<and> ints' = ints @ chunk
           \<and> user_entries p r chunk
           \<and> calls st' = calls st @ RecommendReq u opts # map track_call_of chunk"
proof -
  from probe_user_step [OF assms] obtain r opts where
    rs: "recs' = recs @ [\<lparr>re_user_id = u, re_result = r\<rparr>]" and
    br: "if rec_status r = ''success'' \<and> recommendations_count r > 0 then
              (\<exists>item tr. viewed_item p r item \<and>
                 (if env_random e (draws st + 3) > 7 / 10
                  then (\<exists>tr2. ints' = ints @
                           [\<lparr>ie_user_id = u, ie_item_id = item, ie_rating = None,
                             ie_result = tr\<rparr>,
                            \<lparr>ie_user_id = u, ie_item_id = item,
                             ie_rating = Some (1 + int (env_entropy e (draws st + 4) mod 5)),
                             ie_result = tr2\<rparr>])
                       \<and> calls st' = calls st @
                           [RecommendReq u opts, TrackReq u item ''view'',
                            TrackReq u item ''rate'']
                  else ints' = ints @
                           [\<lparr>ie_user_id = u, ie_item_id = item, ie_rating = None,
                             ie_result = tr\<rparr>]
                       \<and> calls st' = calls st @
                           [RecommendReq u opts, TrackReq u item ''view'']))
            else ints' = ints \<and> calls st' = calls st @ [RecommendReq u opts]"
    by blast
  let ?r = "\<lparr>re_user_id = u, re_result = r\<rparr>"
  show ?thesis
  proof (cases "rec_status r = ''success'' \<and> recommendations_count r > 0")
    case False
    then have np: "\<not> is_personalized ?r" by (simp add: is_personalized_def)
    from br [unfolded if_not_P [OF False]] have
      "ints' = ints" "calls st' = calls st @ [RecommendReq u opts]"
      by blast+
    with rs np show ?thesis
      by (intro exI [of _ ?r] exI [of _ "[]"] exI [of _ opts]) simp
  next
    case True
    then have pr: "is_personalized ?r" by (simp add: is_personalized_def)
    from br [unfolded if_P [OF True]] obtain item tr where
      vi: "viewed_item p r item" and
      b2: "if env_random e (draws st + 3) > 7 / 10
                  then (\<exists>tr2. ints' = ints @
                           [\<lparr>ie_user_id = u, ie_item_id = item, ie_rating = None,
                             ie_result = tr\<rparr>,
                            \<lparr>ie_user_id = u, ie_item_id = item,
                             ie_rating = Some (1 + int (env_entropy e (draws st + 4) mod 5)),
                             ie_result = tr2\<rparr>])
                       \<and> calls st' = calls st @
                           [RecommendReq u opts, TrackReq u item ''view'',
                            TrackReq u item ''rate'']
                  else ints' = ints @
                           [\<lparr>ie_user_id = u, ie_item_id = item, ie_rating = None,
                             ie_result = tr\<rparr>]
                       \<and> calls st' = calls st @
                           [RecommendReq u opts, TrackReq u item ''view'']"
      by blast
    let ?v = "\<lparr>ie_user_id = u, ie_item_id = item, ie_rating = None, ie_result = tr\<rparr>"
    have ve: "view_entry p ?r ?v" using vi by (simp add: view_entry_def)
    show ?thesis
    proof (cases "env_random e (draws st + 3) > 7 / 10")
      case hi: True
      from b2 [unfolded if_P [OF hi]] obtain tr2 where
        i2: "ints' = ints @ [?v, \<lparr>ie_user_id = u, ie_item_id = item,
                             ie_rating = Some (1 + int (env_entropy e (draws st + 4) mod 5)),
                             ie_result = tr2\<rparr>]" and
        c2: "calls st' = calls st @
               [RecommendReq u opts, TrackReq u item ''view'', TrackReq u item ''rate'']"
        by blast
      let ?w = "\<lparr>ie_user_id = u, ie_item_id = item,
                 ie_rating = Some (1 + int (env_entropy e (draws st + 4) mod 5)),
                 ie_result = tr2\<rparr>"
      have re: "rate_entry ?v ?w" by (simp add: rate_entry_def)
      from rs pr ve re i2 c2 show ?thesis
        by (intro exI [of _ ?r] exI [of _ "[?v, ?w]"] exI [of _ opts])
           (simp add: track_call_of_def)
    next
      case lo: False
      from b2 [unfolded if_not_P [OF lo]] have
        i1: "ints' = ints @ [?v]" and
        c1: "calls st' = calls st @ [RecommendReq u opts, TrackReq u item ''view'']"
        by blast+
      from rs pr ve i1 c1 show ?thesis
        by (intro exI [of _ ?r] exI [of _ "[?v]"] exI [of _ opts])
           (simp add: track_call_of_def)
    qed
  qed
qed

lemma without_options_track: "without_options (track_call_of i) = track_call_of i"
  by (simp add: track_call_of_def)

lemma probe_users_trace:
  "probe_users p e us (recs, ints) st = (Inr (recs', ints'), st') \<Longrightarrow>
   \<exists>new chunks cs. recs' = recs @ new \<and> map re_user_id new = us
      \<and> ints' = ints @ concat chunks \<and> list_all2 (user_entries p) new chunks
      \<and> calls st' = calls st @ cs
      \<and> map without_options cs = concat (map2 user_calls new chunks)"
proof (induction us arbitrary: recs ints st)
  case Nil
  then show ?case
    by (intro exI [of _ "[]"]) simp
next
  case (Cons u us)
  from Cons.prems obtain recs1 ints1 st1 where
    step: "probe_user p e u (recs, ints) st = (Inr (recs1, ints1), st1)" and
    rest: "probe_users p e us (recs1, ints1) st1 = (Inr (recs', ints'), st')"
    by (auto split: prod.splits sum.splits)
  from probe_user_chunk [OF step] obtain r chunk opts where
    s: "recs1 = recs @ [r]" "re_user_id r = u" "ints1 = ints @ chunk"
       "user_entries p r chunk"
       "calls st1 = calls st @ RecommendReq u opts # map track_call_of chunk"
    by blast
  from Cons.IH [OF rest] obtain new chunks cs where
    t: "recs' = recs1 @ new" "map re_user_id new = us" "ints' = ints1 @ concat chunks"
       "list_all2 (user_entries p) new chunks" "calls st' = calls st1 @ cs"
       "map without_options cs = concat (map2 user_calls new chunks)"
    by blast
  show ?case
    using s t
    by (intro exI [of _ "r # new"] exI [of _ "chunk # chunks"]
              exI [of _ "RecommendReq u opts # map track_call_of chunk @ cs"])
       (simp add: user_calls_def without_options_track)
qed

lemma random_sample_calls: "calls (snd (random_sample e xs k st)) = calls st"
  by (induction e xs k st rule: random_sample.induct)
     (auto simp: Let_def split: prod.splits)

lemma run_probe_cycle_trace:
  assumes "run_probe_cycle p e st = (Inr rep, st')"
    and "sum_status (rp_summary rep) = ''completed''"
  shows "\<exists>chunks cs cu.
           list_all2 (user_entries p) (rp_recommendations rep) chunks
         \<and> rp_interactions rep = concat chunks
         \<and> calls st' = calls st @ cs
         \<and> map without_options cs =
             HealthReq # concat (map2 user_calls (rp_recommendations rep) chunks)
               @ [CompareReq cu]
         \<and> cu \<in> set (sampled_users p e st)"
proof -
  from assms obtain hc st3 sampled st4 recs ints st5 cu st6 where
    h: "health_check e (st\<lparr>clock_reads := Suc (Suc (clock_reads st))\<rparr>) = (hc, st3)" and
    sa: "random_sample e (test_users p) (min 5 (length (test_users p))) st3 = (sampled, st4)" and
    lp: "probe_users p e sampled ([], []) st4 = (Inr (recs, ints), st5)" and
    ch: "random_choice e sampled st5 = (Inr cu, st6)" and
    rp: "rp_recommendations rep = recs" "rp_interactions rep = ints" and
    fin: "calls st' = calls (snd (compare_models e cu st6))"
    by (auto simp: run_probe_cycle_def time_time_def Let_def
             split: prod.splits sum.splits if_splits)
  from h health_check_state [of e "st\<lparr>clock_reads := Suc (Suc (clock_reads st))\<rparr>"]
  have c3: "calls st3 = calls st @ [HealthReq]" by simp
  from sa random_sample_calls [of e "test_users p" "min 5 (length (test_users p))" st3]
  have c4: "calls st4 = calls st3" by simp
  from h sa have su: "sampled_users p e st = sampled"
    by (simp add: sampled_users_def time_time_def)
  from probe_users_trace [OF lp] obtain new chunks cs where
    t: "recs = new" "ints = concat chunks" "list_all2 (user_entries p) new chunks"
       "calls st5 = calls st4 @ cs"
       "map without_options cs = concat (map2 user_calls new chunks)"
    by auto
  from random_choice_member [OF ch] have
    cu: "cu \<in> set sampled" and c6: "calls st6 = calls st5" by auto
  from fin compare_models_state [of e cu st6] have
    c8: "calls st' = calls st6 @ [CompareReq cu]" by simp
  show ?thesis
    using rp t cu su c3 c4 c6 c8
    by (intro exI [of _ chunks] exI [of _ "HealthReq # cs @ [CompareReq cu]"] exI [of _ cu])
       simp
qed

subsection \<open>Concrete runs\<close>

lemma ride_run_high:
  "run_probe_cycle small_probe (env_of ride_server (9 / 10)) fresh =
     (Inr \<lparr>rp_cycle_start = 1,
              rp_health_check =
                \<lparr>hc_status = ''healthy'', hc_response_time = Some (1 / 2),
                   hc_data = Some (JObj []), hc_error = None\<rparr>,
              rp_recommendations =
                [\<lparr>re_user_id = ''user_001'',
                    re_result =
                      \<lparr>rec_status = ''success'', rec_error = None,
                         rec_response_time = Some 1, recommendations_count = 1,
                         model_used = Some (JStr ''collab-v2''),
                         request_id = Some (JStr ''r1''),
                         latency = Some (JInt 12),
                         rec_data =
                           Some
                            (JObj
                              [(''recommendations'',
                                JArr [JObj [(''itemId'', JStr ''ride_003'')]]),
                               (''model'', JStr ''collab-v2''),
                               (''requestId'', JStr ''r1''),
                               (''latency'', JInt 12)])\<rparr>\<rparr>],
              rp_interactions =
                [\<lparr>ie_user_id = ''user_001'', ie_item_id = JStr ''ride_003'',
                    ie_rating = None,
                    ie_result =
                      \<lparr>trk_status = ''success'',
                         trk_interaction = Some (JObj []),
                         trk_response_time = Some (1 / 2), trk_error = None\<rparr>\<rparr>,
                 \<lparr>ie_user_id = ''user_001'', ie_item_id = JStr ''ride_003'',
                    ie_rating = Some 1,
                    ie_result =
                      \<lparr>trk_status = ''success'',
                         trk_interaction = Some (JObj []),
                         trk_response_time = Some (1 / 2), trk_error = None\<rparr>\<rparr>],
              rp_model_comparison =
                Some
                 \<lparr>cmp_status = ''success'', models_compared = Some 0,
                    total_time = Some (JInt 0), cmp_data = Some (JObj []),
                    cmp_error = None\<rparr>,
              rp_summary =
                \<lparr>sum_status = ''completed'', sum_reason = None,
                   cycle_time = Some 4, total_requests = Some 2,
                   successful_recommendations = Some 1,
                   personalized_responses = Some 1,
                   personalization_rate = Some 1, avg_response_time = Some 1\<rparr>\<rparr>,
       \<lparr>calls =
          [HealthReq,
           RecommendReq ''user_001''
            (JObj
              [(''numRecommendations'', JInt 10),
               (''context'',
                JObj
                 [(''location'', JStr ''NYC''),
                  (''timeOfDay'', JStr ''morning'')])]),
           TrackReq ''user_001'' (JStr ''ride_003'') ''view'',
           TrackReq ''user_001'' (JStr ''ride_003'') ''rate'',
           CompareReq ''user_001''],
          clock_reads = 5, draws = 7\<rparr>)"
  by code_simp

lemma ride_run_low:
  "run_probe_cycle small_probe (env_of ride_server (1 / 10)) fresh =
     (Inr \<lparr>rp_cycle_start = 1,
              rp_health_check =
                \<lparr>hc_status = ''healthy'', hc_response_time = Some (1 / 2),
                   hc_data = Some (JObj []), hc_error = None\<rparr>,
              rp_recommendations =
                [\<lparr>re_user_id = ''user_001'',
                    re_result =
                      \<lparr>rec_status = ''success'', rec_error = None,
                         rec_response_time = Some 1, recommendations_count = 1,
                         model_used = Some (JStr ''collab-v2''),
                         request_id = Some (JStr ''r1''),
                         latency = Some (JInt 12),
                         rec_data =
                           Some
                            (JObj
                              [(''recommendations'',
                                JArr [JObj [(''itemId'', JStr ''ride_003'')]]),
                               (''model'', JStr ''collab-v2''),
                               (''requestId'', JStr ''r1''),
                               (''latency'', JInt 12)])\<rparr>\<rparr>],
              rp_interactions =
                [\<lparr>ie_user_id = ''user_001'', ie_item_id = JStr ''ride_003'',
                    ie_rating = None,
                    ie_result =
                      \<lparr>trk_status = ''success'',
                         trk_interaction = Some (JObj []),
                         trk_response_time = Some (1 / 2), trk_error = None\<rparr>\<rparr>],
              rp_model_comparison =
                Some
                 \<lparr>cmp_status = ''success'', models_compared = Some 0,
                    total_time = Some (JInt 0), cmp_data = Some (JObj []),
                    cmp_error = None\<rparr>,
              rp_summary =
                \<lparr>sum_status = ''completed'', sum_reason = None,
                   cycle_time = Some 4, total_requests = Some 2,
                   successful_recommendations = Some 1,
                   personalized_responses = Some 1,
                   personalization_rate = Some 1, avg_response_time = Some 1\<rparr>\<rparr>,
       \<lparr>calls =
          [HealthReq,
           RecommendReq ''user_001''
            (JObj
              [(''numRecommendations'', JInt 10),
               (''context'',
                JObj
                 [(''location'', JStr ''NYC''),
                  (''timeOfDay'', JStr ''morning'')])]),
           TrackReq ''user_001'' (JStr ''ride_003'') ''view'',
           CompareReq ''user_001''],
          clock_reads = 5, draws = 6\<rparr>)"
  by code_simp

lemma bare_item_run:
  "run_probe_cycle small_probe (env_of bare_item_server 0) fresh =
     (Inl (AttributeError
             [CHR 0x27, CHR ''s'', CHR ''t'', CHR ''r'', CHR 0x27, CHR '' '',
              CHR ''o'', CHR ''b'', CHR ''j'', CHR ''e'', CHR ''c'', CHR ''t'',
              CHR '' '', CHR ''h'', CHR ''a'', CHR ''s'', CHR '' '', CHR ''n'',
              CHR ''o'', CHR '' '', CHR ''a'', CHR ''t'', CHR ''t'', CHR ''r'',
              CHR ''i'', CHR ''b'', CHR ''u'', CHR ''t'', CHR ''e'', CHR '' '',
              CHR 0x27, CHR ''g'', CHR ''e'', CHR ''t'', CHR 0x27]),
       \<lparr>calls =
          [HealthReq,
           RecommendReq ''user_001''
            (JObj
              [(''numRecommendations'', JInt 10),
               (''context'',
                JObj
                 [(''location'', JStr ''NYC''),
                  (''timeOfDay'', JStr ''morning'')])])],
          clock_reads = 4, draws = 3\<rparr>)"
  by code_simp

lemma ride_pass_high:
  "probe_user small_probe (env_of ride_server (9 / 10)) ''user_001'' ([], []) fresh =
     (Inr ([\<lparr>re_user_id = ''user_001'',
                re_result =
                  \<lparr>rec_status = ''success'', rec_error = None,
                     rec_response_time = Some 1, recommendations_count = 1,
                     model_used = Some (JStr ''collab-v2''),
                     request_id = Some (JStr ''r1''), latency = Some (JInt 12),
                     rec_data =
                       Some
                        (JObj
                          [(''recommendations'',
                            JArr [JObj [(''itemId'', JStr ''ride_003'')]]),
                           (''model'', JStr ''collab-v2''),
                           (''requestId'', JStr ''r1''),
                           (''latency'', JInt 12)])\<rparr>\<rparr>],
            [\<lparr>ie_user_id = ''user_001'', ie_item_id = JStr ''ride_003'',
                ie_rating = None,
                ie_result =
                  \<lparr>trk_status = ''success'', trk_interaction = Some (JObj []),
                     trk_response_time = Some (1 / 2), trk_error = None\<rparr>\<rparr>,
             \<lparr>ie_user_id = ''user_001'', ie_item_id = JStr ''ride_003'',
                ie_rating = Some 1,
                ie_result =
                  \<lparr>trk_status = ''success'', trk_interaction = Some (JObj []),
                     trk_response_time = Some (1 / 2), trk_error = None\<rparr>\<rparr>]),
       \<lparr>calls =
          [RecommendReq ''user_001''
            (JObj
              [(''numRecommendations'', JInt 10),
               (''context'',
                JObj
                 [(''location'', JStr ''NYC''),
                  (''timeOfDay'', JStr ''morning'')])]),
           TrackReq ''user_001'' (JStr ''ride_003'') ''view'',
           TrackReq ''user_001'' (JStr ''ride_003'') ''rate''],
          clock_reads = 2, draws = 5\<rparr>)"
  by code_simp

lemma sampled_small:
  "sampled_users small_probe (env_of ride_server (9 / 10)) fresh = [''user_001'']"
  "sampled_users small_probe (env_of ride_server (1 / 10)) fresh = [''user_001'']"
  by code_simp+

subsection \<open>Counting the calls of a cycle\<close>

lemma issued_append: "calls st' = calls st @ cs \<Longrightarrow> issued st st' = cs"
  by (simp add: issued_def)

lemma count_without_options:
  "length (filter is_recommend_call (map without_options cs)) = length (filter is_recommend_call cs)"
  "length (filter is_track_call (map without_options cs)) = length (filter is_track_call cs)"
  "length (filter is_compare_call (map without_options cs)) = length (filter is_compare_call cs)"
  "length (filter is_health_call (map without_options cs)) = length (filter is_health_call cs)"
proof (induction cs)
  case Nil
  {
    case 1 show ?case by simp
  next
    case 2 show ?case by simp
  next
    case 3 show ?case by simp
  next
    case 4 show ?case by simp
  }
next
  case (Cons c cs)
  {
    case 1 with Cons show ?case by (cases c) simp_all
  next
    case 2 with Cons show ?case by (cases c) simp_all
  next
    case 3 with Cons show ?case by (cases c) simp_all
  next
    case 4 with Cons show ?case by (cases c) simp_all
  }
qed

lemma count_track_calls:
  "filter is_track_call (map track_call_of c) = map track_call_of c"
  "filter is_recommend_call (map track_call_of c) = []"
  "filter is_compare_call (map track_call_of c) = []"
  "filter is_health_call (map track_call_of c) = []"
  by (induction c) (simp_all add: track_call_of_def)

lemma count_user_calls:
  assumes "list_all2 Q rs chunks"
  shows "length (filter is_recommend_call (concat (map2 user_calls rs chunks))) = length rs"
    and "length (filter is_track_call (concat (map2 user_calls rs chunks)))
           = length (concat chunks)"
    and "filter is_compare_call (concat (map2 user_calls rs chunks)) = []"
    and "filter is_health_call (concat (map2 user_calls rs chunks)) = []"
  using assms
  by (induction rule: list_all2_induct) (simp_all add: user_calls_def count_track_calls)

text \<open>
  C9. In a cycle that ran through, \<open>total_requests\<close> is the number of sampled users
  plus 1. Among the calls the cycle issued there are as many recommendation requests as
  sampled users and one comparison request, which is what the total counts. The one
  health-check call and the tracking calls, one per entry of the interactions list, are
  not in the total.
\<close>

theorem total_requests_counts:
  assumes "run_probe_cycle p e st = (Inr rep, st')"
    and "sum_status (rp_summary rep) = ''completed''"
  shows "total_requests (rp_summary rep) = Some (length (sampled_users p e st) + 1)
       \<and> length (filter is_recommend_call (issued st st')) = length (sampled_users p e st)
       \<and> length (filter is_compare_call (issued st st')) = 1
       \<and> length (filter is_health_call (issued st st')) = 1
       \<and> length (filter is_track_call (issued st st')) = length (rp_interactions rep)"
proof -
  from assms(1) have f: "fst (run_probe_cycle p e st) = Inr rep" by simp
  from run_probe_cycle_completed [OF f assms(2)] obtain t where
    s: "rp_summary rep = cycle_summary t (rp_recommendations rep)" and
    u: "map re_user_id (rp_recommendations rep) = sampled_users p e st" by blast
  have len: "length (sampled_users p e st) = length (rp_recommendations rep)"
    using u by (metis length_map)
  from run_probe_cycle_trace [OF assms] obtain chunks cs cu where
    l: "list_all2 (user_entries p) (rp_recommendations rep) chunks" and
    i: "rp_interactions rep = concat chunks" and
    c: "calls st' = calls st @ cs" and
    w: "map without_options cs =
          HealthReq # concat (map2 user_calls (rp_recommendations rep) chunks)
            @ [CompareReq cu]"
    by (elim exE conjE)
  note cnt = count_user_calls [OF l]
  have "length (filter is_recommend_call cs) = length (rp_recommendations rep)"
    using count_without_options(1) [of cs] cnt by (simp add: w)
  moreover have "length (filter is_track_call cs) = length (concat chunks)"
    using count_without_options(2) [of cs] cnt by (simp add: w)
  moreover have "length (filter is_compare_call cs) = 1"
    using count_without_options(3) [of cs] cnt by (simp add: w)
  moreover have "length (filter is_health_call cs) = 1"
    using count_without_options(4) [of cs] cnt by (simp add: w)
  ultimately show ?thesis
    using issued_append [OF c] i len by (simp add: s cycle_summary_def Let_def)
qed

theorem total_requests_counts_witness:
  "(run_probe_cycle small_probe (env_of ride_server (9 / 10)) fresh) = (Inr (projr (fst (run_probe_cycle small_probe (env_of ride_server (9 / 10)) fresh))), snd (run_probe_cycle small_probe (env_of ride_server (9 / 10)) fresh))
   \<and> sum_status (rp_summary (projr (fst (run_probe_cycle small_probe (env_of ride_server (9 / 10)) fresh)))) = ''completed''
   \<and> total_requests (rp_summary (projr (fst (run_probe_cycle small_probe (env_of ride_server (9 / 10)) fresh)))) = Some 2
   \<and> length (calls (snd (run_probe_cycle small_probe (env_of ride_server (9 / 10)) fresh))) = 5
   \<and> length (filter is_track_call (issued fresh (snd (run_probe_cycle small_probe (env_of ride_server (9 / 10)) fresh)))) = 2"
  using total_requests_counts
          [of small_probe "env_of ride_server (9 / 10)" fresh "projr (fst (run_probe_cycle small_probe (env_of ride_server (9 / 10)) fresh))" "snd (run_probe_cycle small_probe (env_of ride_server (9 / 10)) fresh)"]
  by (simp add: ride_run_high sampled_small)

subsection \<open>The interactions of a cycle\<close>

lemma user_entries_length: "user_entries p r c \<Longrightarrow> length c \<le> 2"
  by (cases "(p, r, c)" rule: user_entries.cases) simp_all

lemma user_entries_member:
  "user_entries p r c \<Longrightarrow> i \<in> set c \<Longrightarrow> is_personalized r \<and> ie_user_id i = re_user_id r"
  by (cases "(p, r, c)" rule: user_entries.cases)
     (auto simp: view_entry_def rate_entry_def)

lemma chunks_length:
  "list_all2 (user_entries p) rs chunks \<Longrightarrow> length (concat chunks) \<le> 2 * length rs"
  by (induction rule: list_all2_induct) (auto dest: user_entries_length)

lemma chunks_member:
  "list_all2 (user_entries p) rs chunks \<Longrightarrow> i \<in> set (concat chunks)
     \<Longrightarrow> \<exists>r\<in>set rs. re_user_id r = ie_user_id i \<and> is_personalized r"
  by (induction rule: list_all2_induct) (auto dest: user_entries_member)

lemma run_probe_cycle_failed:
  assumes "fst (run_probe_cycle p e st) = Inr rep"
    and "sum_status (rp_summary rep) \<noteq> ''completed''"
  shows "rp_recommendations rep = [] \<and> rp_interactions rep = []"
  using assms
  by (auto simp: run_probe_cycle_def Let_def cycle_summary_def
           split: prod.splits sum.splits if_splits)

text \<open>
  C10. In every report of a cycle, the interactions list is the concatenation of one
  group of entries per recommendation entry, and a group is empty, or a view entry, or a
  view entry followed by a rating entry that carries a rating (\<open>user_entries\<close>): at
  most two entries per sampled user. The user of every entry is a sampled user who has
  a recommendation entry with status \<open>success\<close> and a positive count, and the list is
  at most twice as long as the list of sampled users.
\<close>

theorem interactions_bounded:
  assumes "fst (run_probe_cycle p e st) = Inr rep"
  shows "(\<exists>chunks. rp_interactions rep = concat chunks
            \<and> list_all2 (user_entries p) (rp_recommendations rep) chunks)
       \<and> (\<forall>i\<in>set (rp_interactions rep).
             ie_user_id i \<in> set (sampled_users p e st)
           \<and> (\<exists>r\<in>set (rp_recommendations rep).
                 re_user_id r = ie_user_id i \<and> is_personalized r))
       \<and> length (rp_interactions rep) \<le> 2 * length (sampled_users p e st)"
proof (cases "sum_status (rp_summary rep) = ''completed''")
  case False
  from run_probe_cycle_failed [OF assms False] show ?thesis by simp
next
  case True
  obtain st' where run: "run_probe_cycle p e st = (Inr rep, st')"
    using assms by (cases "run_probe_cycle p e st") simp
  from run_probe_cycle_completed [OF assms True] have
    u: "map re_user_id (rp_recommendations rep) = sampled_users p e st" by blast
  have len: "length (sampled_users p e st) = length (rp_recommendations rep)"
    using u by (metis length_map)
  from run_probe_cycle_trace [OF run True] obtain chunks cs cu where
    l: "list_all2 (user_entries p) (rp_recommendations rep) chunks" and
    i: "rp_interactions rep = concat chunks"
    by (elim exE conjE)
  have a: "\<exists>chunks. rp_interactions rep = concat chunks
            \<and> list_all2 (user_entries p) (rp_recommendations rep) chunks"
    using l i by blast
  have b: "\<forall>i\<in>set (rp_interactions rep).
             ie_user_id i \<in> set (sampled_users p e st)
           \<and> (\<exists>r\<in>set (rp_recommendations rep).
                 re_user_id r = ie_user_id i \<and> is_personalized r)"
  proof
    fix x assume "x \<in> set (rp_interactions rep)"
    with i have "x \<in> set (concat chunks)" by simp
    from chunks_member [OF l this] obtain r where
      r: "r \<in> set (rp_recommendations rep)" "re_user_id r = ie_user_id x"
         "is_personalized r" by blast
    from r(1) have "re_user_id r \<in> set (map re_user_id (rp_recommendations rep))"
      by simp
    with u r show "ie_user_id x \<in> set (sampled_users p e st)
           \<and> (\<exists>r\<in>set (rp_recommendations rep).
                 re_user_id r = ie_user_id x \<and> is_personalized r)"
      by auto
  qed
  have c: "length (rp_interactions rep) \<le> 2 * length (sampled_users p e st)"
    using chunks_length [OF l] i len by simp
  from a b c show ?thesis by blast
qed

theorem interactions_bounded_witness:
  "fst (run_probe_cycle small_probe (env_of ride_server (9 / 10)) fresh) = Inr (projr (fst (run_probe_cycle small_probe (env_of ride_server (9 / 10)) fresh)))
   \<and> map ie_user_id (rp_interactions (projr (fst (run_probe_cycle small_probe (env_of ride_server (9 / 10)) fresh)))) = [''user_001'', ''user_001'']
   \<and> map ie_rating (rp_interactions (projr (fst (run_probe_cycle small_probe (env_of ride_server (9 / 10)) fresh)))) = [None, Some 1]
   \<and> length (rp_interactions (projr (fst (run_probe_cycle small_probe (env_of ride_server (9 / 10)) fresh))))
        \<le> 2 * length (sampled_users small_probe (env_of ride_server (9 / 10)) fresh)"
  using interactions_bounded
          [of small_probe "env_of ride_server (9 / 10)" fresh "projr (fst (run_probe_cycle small_probe (env_of ride_server (9 / 10)) fresh))"]
  by (simp add: ride_run_high sampled_small)

subsection \<open>The view of the first recommendation\<close>

lemma fresh_simps: "calls fresh = []" "draws fresh = 0" "clock_reads fresh = 0"
  by (simp_all add: fresh_def)

lemma user_entries_view:
  assumes "user_entries p r c"
  shows "if is_personalized r
         then (\<exists>item. viewed_item p (re_result r) item
                 \<and> filter (has_label ''view'') (user_calls r c)
                     = [TrackReq (re_user_id r) item ''view''])
         else user_calls r c = [RecommendReq (re_user_id r) JNull]"
  using assms
  by (cases "(p, r, c)" rule: user_entries.cases)
     (auto simp: user_calls_def track_call_of_def view_entry_def rate_entry_def
           split: option.splits)

text \<open>
  C7, amended. In a cycle that ran through, the calls issued are the health check, then
  for each sampled user in turn the calls of that user's pass, then the comparison. The
  pass of a user whose recommendation result has status \<open>success\<close> and a positive
  count has exactly one \<open>view\<close> tracking call, for that user and for the item to view:
  the \<open>itemId\<close> of the first recommendation, or an item of the probe's pool when the
  first recommendation lacks the field. The pass of any other user, one whose
  recommendations list is empty among them, consists of the recommendation request alone,
  and such a user is not counted in \<open>personalized_responses\<close>. When the first
  recommendation is not a JSON object the cycle does not run through: it raises before
  any tracking call, as the last theorem of this subsection shows.
\<close>

theorem view_call_per_personalized_user:
  assumes "run_probe_cycle p e st = (Inr rep, st')"
    and "sum_status (rp_summary rep) = ''completed''"
  shows "map re_user_id (rp_recommendations rep) = sampled_users p e st
       \<and> (\<exists>chunks cu.
             map without_options (issued st st') =
               HealthReq # concat (map2 user_calls (rp_recommendations rep) chunks)
                 @ [CompareReq cu]
           \<and> list_all2
               (\<lambda>r chunk.
                  if is_personalized r
                  then (\<exists>item. viewed_item p (re_result r) item
                          \<and> filter (has_label ''view'') (user_calls r chunk)
                              = [TrackReq (re_user_id r) item ''view''])
                  else user_calls r chunk = [RecommendReq (re_user_id r) JNull])
               (rp_recommendations rep) chunks)
       \<and> personalized_responses (rp_summary rep)
           = Some (length (filter is_personalized (rp_recommendations rep)))
       \<and> (\<forall>r\<in>set (rp_recommendations rep).
             recommendations_count (re_result r) = 0 \<longrightarrow> \<not> is_personalized r)"
proof -
  from assms(1) have f: "fst (run_probe_cycle p e st) = Inr rep" by simp
  from run_probe_cycle_completed [OF f assms(2)] obtain t where
    s: "rp_summary rep = cycle_summary t (rp_recommendations rep)" and
    u: "map re_user_id (rp_recommendations rep) = sampled_users p e st" by blast
  from run_probe_cycle_trace [OF assms] obtain chunks cs cu where
    l: "list_all2 (user_entries p) (rp_recommendations rep) chunks" and
    c: "calls st' = calls st @ cs" and
    w: "map without_options cs =
          HealthReq # concat (map2 user_calls (rp_recommendations rep) chunks)
            @ [CompareReq cu]"
    by (elim exE conjE)
  have l': "list_all2
               (\<lambda>r chunk.
                  if is_personalized r
                  then (\<exists>item. viewed_item p (re_result r) item
                          \<and> filter (has_label ''view'') (user_calls r chunk)
                              = [TrackReq (re_user_id r) item ''view''])
                  else user_calls r chunk = [RecommendReq (re_user_id r) JNull])
               (rp_recommendations rep) chunks"
    using l by (rule list_all2_mono) (rule user_entries_view)
  have a: "\<exists>chunks cu.
             map without_options (issued st st') =
               HealthReq # concat (map2 user_calls (rp_recommendations rep) chunks)
                 @ [CompareReq cu]
           \<and> list_all2
               (\<lambda>r chunk.
                  if is_personalized r
                  then (\<exists>item. viewed_item p (re_result r) item
                          \<and> filter (has_label ''view'') (user_calls r chunk)
                              = [TrackReq (re_user_id r) item ''view''])
                  else user_calls r chunk = [RecommendReq (re_user_id r) JNull])
               (rp_recommendations rep) chunks"
    using l' w issued_append [OF c]
    by (intro exI [of _ chunks] exI [of _ cu]) simp
  have b: "personalized_responses (rp_summary rep)
           = Some (length (filter is_personalized (rp_recommendations rep)))"
    by (simp add: s cycle_summary_def Let_def)
  have d: "\<forall>r\<in>set (rp_recommendations rep).
             recommendations_count (re_result r) = 0 \<longrightarrow> \<not> is_personalized r"
    by (simp add: is_personalized_def)
  from u a b d show ?thesis by blast
qed

theorem view_call_per_personalized_user_witness:
  "(run_probe_cycle small_probe (env_of ride_server (9 / 10)) fresh) = (Inr (projr (fst (run_probe_cycle small_probe (env_of ride_server (9 / 10)) fresh))), snd (run_probe_cycle small_probe (env_of ride_server (9 / 10)) fresh))
   \<and> sum_status (rp_summary (projr (fst (run_probe_cycle small_probe (env_of ride_server (9 / 10)) fresh)))) = ''completed''
   \<and> map re_user_id (rp_recommendations (projr (fst (run_probe_cycle small_probe (env_of ride_server (9 / 10)) fresh)))) = [''user_001'']
   \<and> filter (has_label ''view'') (issued fresh (snd (run_probe_cycle small_probe (env_of ride_server (9 / 10)) fresh)))
        = [TrackReq ''user_001'' (JStr ''ride_003'') ''view'']
   \<and> personalized_responses (rp_summary (projr (fst (run_probe_cycle small_probe (env_of ride_server (9 / 10)) fresh)))) = Some 1"
  using view_call_per_personalized_user
          [of small_probe "env_of ride_server (9 / 10)" fresh "projr (fst (run_probe_cycle small_probe (env_of ride_server (9 / 10)) fresh))" "snd (run_probe_cycle small_probe (env_of ride_server (9 / 10)) fresh)"]
  by (simp add: ride_run_high sampled_small issued_def fresh_simps)

theorem view_call_missing_for_bare_items:
  "env_server (env_of bare_item_server 0) 1
       (RecommendReq ''user_001'' (probe_options ''NYC'' ''morning''))
     = Responded None (Inr (JObj [(''recommendations'', JArr [JStr ''ride_003''])])) (1 / 2)
   \<and> rec_status (fst (get_recommendations (env_of bare_item_server 0) ''user_001''
         (Some (probe_options ''NYC'' ''morning''))
         \<lparr>calls = [HealthReq], clock_reads = 2, draws = 3\<rparr>)) = ''success''
   \<and> recommendations_count (fst (get_recommendations (env_of bare_item_server 0) ''user_001''
         (Some (probe_options ''NYC'' ''morning''))
         \<lparr>calls = [HealthReq], clock_reads = 2, draws = 3\<rparr>)) = 1
   \<and> isl (fst (run_probe_cycle small_probe (env_of bare_item_server 0) fresh))
   \<and> calls (snd (run_probe_cycle small_probe (env_of bare_item_server 0) fresh))
        = [HealthReq, RecommendReq ''user_001'' (probe_options ''NYC'' ''morning'')]"
proof -
  have a: "env_server (env_of bare_item_server 0) 1
       (RecommendReq ''user_001'' (probe_options ''NYC'' ''morning''))
     = Responded None (Inr (JObj [(''recommendations'', JArr [JStr ''ride_003''])])) (1 / 2)"
    by (simp add: env_of_def)
  have b: "rec_status (fst (get_recommendations (env_of bare_item_server 0) ''user_001''
         (Some (probe_options ''NYC'' ''morning''))
         \<lparr>calls = [HealthReq], clock_reads = 2, draws = 3\<rparr>)) = ''success''"
    by code_simp
  have c: "recommendations_count (fst (get_recommendations (env_of bare_item_server 0)
         ''user_001'' (Some (probe_options ''NYC'' ''morning''))
         \<lparr>calls = [HealthReq], clock_reads = 2, draws = 3\<rparr>)) = 1"
    by code_simp
  have d: "isl (fst (run_probe_cycle small_probe (env_of bare_item_server 0) fresh))"
    by (simp add: bare_item_run)
  have e: "calls (snd (run_probe_cycle small_probe (env_of bare_item_server 0) fresh))
        = [HealthReq, RecommendReq ''user_001'' (probe_options ''NYC'' ''morning'')]"
    by (simp add: bare_item_run probe_options_def)
  show ?thesis by (intro conjI a b c d e)
qed

subsection \<open>The rating\<close>

text \<open>
  C4, amended. Take a pass of the loop that returns, for a user whose recommendation
  result has status \<open>success\<close> and a positive count. Its fourth random draw (after
  the location, the time of day and the fallback item) is the \<open>random.random()\<close> that
  follows the view call. When that draw is above 0.7 the pass issues the recommendation
  request, the \<open>view\<close> call and a \<open>rate\<close> call for the same user and item, and
  appends a view entry and a rating entry whose rating lies between 1 and 5. When the
  draw is at most 0.7 the pass issues only the recommendation request and the \<open>view\<close>
  call and appends only the view entry.
\<close>

theorem rating_follows_draw:
  assumes "probe_user p e user_id (recs, ints) st = (Inr (recs', ints'), st')"
    and "is_personalized (last recs')"
  shows "\<exists>item opts v.
           viewed_item p (re_result (last recs')) item
         \<and> ie_user_id v = user_id \<and> ie_item_id v = item \<and> ie_rating v = None
         \<and> (if env_random e (draws st + 3) > 7 / 10
            then issued st st' =
                   [RecommendReq user_id opts, TrackReq user_id item ''view'',
                    TrackReq user_id item ''rate'']
               \<and> (\<exists>w k. ints' = ints @ [v, w] \<and> ie_user_id w = user_id
                     \<and> ie_item_id w = item \<and> ie_rating w = Some k \<and> 1 \<le> k \<and> k \<le> 5)
            else issued st st' = [RecommendReq user_id opts, TrackReq user_id item ''view'']
               \<and> ints' = ints @ [v])"
proof -
  from probe_user_step [OF assms(1)] obtain r opts where
    rs: "recs' = recs @ [\<lparr>re_user_id = user_id, re_result = r\<rparr>]" and
    br: "if rec_status r = ''success'' \<and> recommendations_count r > 0 then
              (\<exists>item tr. viewed_item p r item \<and>
                 (if env_random e (draws st + 3) > 7 / 10
                  then (\<exists>tr2. ints' = ints @
                           [\<lparr>ie_user_id = user_id, ie_item_id = item, ie_rating = None,
                             ie_result = tr\<rparr>,
                            \<lparr>ie_user_id = user_id, ie_item_id = item,
                             ie_rating = Some (1 + int (env_entropy e (draws st + 4) mod 5)),
                             ie_result = tr2\<rparr>])
                       \<and> calls st' = calls st @
                           [RecommendReq user_id opts, TrackReq user_id item ''view'',
                            TrackReq user_id item ''rate'']
                  else ints' = ints @
                           [\<lparr>ie_user_id = user_id, ie_item_id = item, ie_rating = None,
                             ie_result = tr\<rparr>]
                       \<and> calls st' = calls st @
                           [RecommendReq user_id opts, TrackReq user_id item ''view'']))
            else ints' = ints \<and> calls st' = calls st @ [RecommendReq user_id opts]"
    by blast
  from rs have la: "re_result (last recs') = r" by simp
  from assms(2) rs have pr: "rec_status r = ''success'' \<and> recommendations_count r > 0"
    by (simp add: is_personalized_def)
  from br [unfolded if_P [OF pr]] obtain item tr where
    vi: "viewed_item p r item" and
    b2: "if env_random e (draws st + 3) > 7 / 10
                  then (\<exists>tr2. ints' = ints @
                           [\<lparr>ie_user_id = user_id, ie_item_id = item, ie_rating = None,
                             ie_result = tr\<rparr>,
                            \<lparr>ie_user_id = user_id, ie_item_id = item,
                             ie_rating = Some (1 + int (env_entropy e (draws st + 4) mod 5)),
                             ie_result = tr2\<rparr>])
                       \<and> calls st' = calls st @
                           [RecommendReq user_id opts, TrackReq user_id item ''view'',
                            TrackReq user_id item ''rate'']
                  else ints' = ints @
                           [\<lparr>ie_user_id = user_id, ie_item_id = item, ie_rating = None,
                             ie_result = tr\<rparr>]
                       \<and> calls st' = calls st @
                           [RecommendReq user_id opts, TrackReq user_id item ''view'']"
    by blast
  let ?v = "\<lparr>ie_user_id = user_id, ie_item_id = item, ie_rating = None, ie_result = tr\<rparr>"
  show ?thesis
  proof (cases "env_random e (draws st + 3) > 7 / 10")
    case hi: True
    from b2 [unfolded if_P [OF hi]] obtain tr2 where
      i2: "ints' = ints @ [?v, \<lparr>ie_user_id = user_id, ie_item_id = item,
                             ie_rating = Some (1 + int (env_entropy e (draws st + 4) mod 5)),
                             ie_result = tr2\<rparr>]" and
      c2: "calls st' = calls st @
             [RecommendReq user_id opts, TrackReq user_id item ''view'',
              TrackReq user_id item ''rate'']"
      by blast
    let ?w = "\<lparr>ie_user_id = user_id, ie_item_id = item,
               ie_rating = Some (1 + int (env_entropy e (draws st + 4) mod 5)),
               ie_result = tr2\<rparr>"
    have w: "\<exists>w k. ints' = ints @ [?v, w] \<and> ie_user_id w = user_id
                     \<and> ie_item_id w = item \<and> ie_rating w = Some k \<and> 1 \<le> k \<and> k \<le> 5"
      using i2
      by (intro exI [of _ ?w] exI [of _ "1 + int (env_entropy e (draws st + 4) mod 5)"])
         simp
    from vi la hi w issued_append [OF c2] show ?thesis
      by (intro exI [of _ item] exI [of _ opts] exI [of _ ?v]) simp
  next
    case lo: False
    from b2 [unfolded if_not_P [OF lo]] have
      i1: "ints' = ints @ [?v]" and
      c1: "calls st' = calls st @ [RecommendReq user_id opts, TrackReq user_id item ''view'']"
      by blast+
    from vi la lo i1 issued_append [OF c1] show ?thesis
      by (intro exI [of _ item] exI [of _ opts] exI [of _ ?v]) simp
  qed
qed

theorem rating_follows_draw_witness:
  "(probe_user small_probe (env_of ride_server (9 / 10)) ''user_001'' ([], []) fresh) = (Inr (fst (projr (fst (probe_user small_probe (env_of ride_server (9 / 10)) ''user_001'' ([], []) fresh))), snd (projr (fst (probe_user small_probe (env_of ride_server (9 / 10)) ''user_001'' ([], []) fresh)))), snd (probe_user small_probe (env_of ride_server (9 / 10)) ''user_001'' ([], []) fresh))
   \<and> is_personalized (last (fst (projr (fst (probe_user small_probe (env_of ride_server (9 / 10)) ''user_001'' ([], []) fresh)))))
   \<and> env_random (env_of ride_server (9 / 10)) (draws fresh + 3) > 7 / 10
   \<and> issued fresh (snd (probe_user small_probe (env_of ride_server (9 / 10)) ''user_001'' ([], []) fresh)) =
        [RecommendReq ''user_001'' (probe_options ''NYC'' ''morning''),
         TrackReq ''user_001'' (JStr ''ride_003'') ''view'',
         TrackReq ''user_001'' (JStr ''ride_003'') ''rate'']
   \<and> map ie_rating (snd (projr (fst (probe_user small_probe (env_of ride_server (9 / 10)) ''user_001'' ([], []) fresh)))) = [None, Some 1]"
proof -
  have h1: "(probe_user small_probe (env_of ride_server (9 / 10)) ''user_001'' ([], []) fresh) = (Inr (fst (projr (fst (probe_user small_probe (env_of ride_server (9 / 10)) ''user_001'' ([], []) fresh))), snd (projr (fst (probe_user small_probe (env_of ride_server (9 / 10)) ''user_001'' ([], []) fresh)))), snd (probe_user small_probe (env_of ride_server (9 / 10)) ''user_001'' ([], []) fresh))"
    by (simp add: ride_pass_high)
  have h2: "is_personalized (last (fst (projr (fst (probe_user small_probe (env_of ride_server (9 / 10)) ''user_001'' ([], []) fresh)))))"
    by (simp add: ride_pass_high is_personalized_def)
  have h3: "env_random (env_of ride_server (9 / 10)) (draws fresh + 3) > 7 / 10"
    by (simp add: env_of_def)
  have h4: "issued fresh (snd (probe_user small_probe (env_of ride_server (9 / 10)) ''user_001'' ([], []) fresh)) =
        [RecommendReq ''user_001'' (probe_options ''NYC'' ''morning''),
         TrackReq ''user_001'' (JStr ''ride_003'') ''view'',
         TrackReq ''user_001'' (JStr ''ride_003'') ''rate'']"
    by (simp add: ride_pass_high issued_def fresh_simps probe_options_def)
  have h5: "map ie_rating (snd (projr (fst (probe_user small_probe (env_of ride_server (9 / 10)) ''user_001'' ([], []) fresh)))) = [None, Some 1]"
    by (simp add: ride_pass_high)
  show ?thesis
    using rating_follows_draw [OF h1 h2] by (intro conjI h1 h2 h3 h4 h5)
qed

theorem rating_not_on_low_draw:
  "env_random (env_of ride_server (1 / 10)) 4 < 3 / 10
   \<and> filter is_track_call
        (calls (snd (run_probe_cycle small_probe (env_of ride_server (1 / 10)) fresh)))
      = [TrackReq ''user_001'' (JStr ''ride_003'') ''view'']
   \<and> env_random (env_of ride_server (9 / 10)) 4 > 3 / 10
   \<and> filter is_track_call
        (calls (snd (run_probe_cycle small_probe (env_of ride_server (9 / 10)) fresh)))
      = [TrackReq ''user_001'' (JStr ''ride_003'') ''view'',
         TrackReq ''user_001'' (JStr ''ride_003'') ''rate'']"
proof -
  have a: "env_random (env_of ride_server (1 / 10)) 4 < 3 / 10"
    by (simp add: env_of_def)
  have b: "filter is_track_call
        (calls (snd (run_probe_cycle small_probe (env_of ride_server (1 / 10)) fresh)))
      = [TrackReq ''user_001'' (JStr ''ride_003'') ''view'']"
    by (simp add: ride_run_low)
  have c: "env_random (env_of ride_server (9 / 10)) 4 > 3 / 10"
    by (simp add: env_of_def)
  have d: "filter is_track_call
        (calls (snd (run_probe_cycle small_probe (env_of ride_server (9 / 10)) fresh)))
      = [TrackReq ''user_001'' (JStr ''ride_003'') ''view'',
         TrackReq ''user_001'' (JStr ''ride_003'') ''rate'']"
    by (simp add: ride_run_high)
  show ?thesis by (intro conjI a b c d)
qed

end
